theory Spec2Isabelle
  imports Complex_Main
begin

section \<open>JavaScript numbers\<close>

text \<open>
  A finite JavaScript \<^verbatim>\<open>number\<close> is modelled by a real: the rounding of IEEE doubles and
  the sign of zero are not part of the model. The one operation of the program that can
  leave the finite range is the division in \<^verbatim>\<open>getBestQuote\<close>, which never throws but
  yields \<^verbatim>\<open>Infinity\<close>, \<^verbatim>\<open>-Infinity\<close> or \<^verbatim>\<open>NaN\<close> on a zero divisor; its result
  type makes these three outcomes explicit.
\<close>

datatype number = Finite real | PosInfinity | NegInfinity | NaN

definition js_div :: "real \<Rightarrow> real \<Rightarrow> number" where
  "js_div a b =
     (if b \<noteq> 0 then Finite (a / b)
      else if 0 < a then PosInfinity
      else if a < 0 then NegInfinity
      else NaN)"

definition js_times :: "number \<Rightarrow> real \<Rightarrow> number" where
  "js_times n k =
     (case n of
        Finite a \<Rightarrow> Finite (a * k)
      | PosInfinity \<Rightarrow> (if 0 < k then PosInfinity else if k < 0 then NegInfinity else NaN)
      | NegInfinity \<Rightarrow> (if 0 < k then NegInfinity else if k < 0 then PosInfinity else NaN)
      | NaN \<Rightarrow> NaN)"

text \<open>The comparison \<^verbatim>\<open>n >= k\<close> of JavaScript: false whenever \<^verbatim>\<open>n\<close> is \<^verbatim>\<open>NaN\<close>.\<close>

definition js_ge :: "number \<Rightarrow> real \<Rightarrow> bool" where
  "js_ge n k =
     (case n of
        Finite a \<Rightarrow> k \<le> a
      | PosInfinity \<Rightarrow> True
      | NegInfinity \<Rightarrow> False
      | NaN \<Rightarrow> False)"


section \<open>Types of the venue router (src/types/index.ts)\<close>

datatype Dex = Raydium | Meteora

record DexQuote =
  dex :: Dex
  price :: real
  fee :: real
  estimatedOutput :: real
  timestamp :: nat

text \<open>
  \<^verbatim>\<open>SwapResult\<close> and \<^verbatim>\<open>OrderDetails\<close> share field names with the order record below;
  their fields carry a prefix here.
\<close>

record SwapResult =
  swap_txHash :: string
  swap_executedPrice :: real
  swap_amountIn :: real
  swap_amountOut :: real
  swap_dex :: Dex
  swap_timestamp :: nat

record OrderDetails =
  od_orderId :: string
  od_tokenIn :: string
  od_tokenOut :: string
  od_amount :: real
  od_slippage :: real


section \<open>Helpers (src/utils/helpers.ts)\<close>

text \<open>
  Every call of \<^verbatim>\<open>Math.random()\<close> is a parameter of the model: a draw \<open>r\<close> with
  \<open>0 \<le> r < 1\<close>. Delays (\<^verbatim>\<open>sleep\<close>, \<^verbatim>\<open>randomDelay\<close>) change no value and are left out.
\<close>

definition applyPriceVariance :: "real \<Rightarrow> real \<Rightarrow> real \<Rightarrow> real \<Rightarrow> real" where
  "applyPriceVariance basePrice minVariance maxVariance r =
     (let variance = minVariance + r * (maxVariance - minVariance)
      in basePrice * variance)"

definition hex_chars :: string where
  "hex_chars = ''0123456789abcdef''"

text \<open>
  The loop of \<^verbatim>\<open>generateMockTxHash\<close> runs for \<open>i = 0, \<dots>, 63\<close> and appends
  \<^verbatim>\<open>chars[Math.floor(Math.random() * chars.length)]\<close>; \<open>rnd i\<close> is the draw of round \<open>i\<close>.
\<close>

definition generateMockTxHash :: "(nat \<Rightarrow> real) \<Rightarrow> string" where
  "generateMockTxHash rnd =
     map (\<lambda>i. hex_chars ! nat \<lfloor>rnd i * real (length hex_chars)\<rfloor>) [0..<64]"


section \<open>The venue router (src/services/dex-router.ts)\<close>

definition basePrices :: "(string \<times> real) list" where
  "basePrices =
     [(''SOL-USDC'', 100), (''SOL-USDT'', 100), (''USDC-SOL'', 0.01),
      (''USDT-SOL'', 0.01), (''SOL-RAY'', 20), (''RAY-SOL'', 0.05)]"

text \<open>
  \<^verbatim>\<open>this.basePrices[pair] || 1.0\<close>: a missing pair and a falsy price both give 1. The key
  always contains a hyphen, so no inherited property of the object is ever read.
\<close>

definition getBasePrice :: "string \<Rightarrow> string \<Rightarrow> real" where
  "getBasePrice tokenIn tokenOut =
     (let pair = tokenIn @ ''-'' @ tokenOut
      in case map_of basePrices pair of
           None \<Rightarrow> 1
         | Some p \<Rightarrow> (if p = 0 then 1 else p))"

definition getRaydiumQuote :: "string \<Rightarrow> string \<Rightarrow> real \<Rightarrow> real \<Rightarrow> nat \<Rightarrow> DexQuote" where
  "getRaydiumQuote tokenIn tokenOut amount r now =
     (let basePrice = getBasePrice tokenIn tokenOut;
          price' = applyPriceVariance basePrice 0.98 1.04 r;
          fee' = 0.003;
          estimatedOutput' = amount * price' * (1 - fee')
      in \<lparr>dex = Raydium, price = price', fee = fee',
          estimatedOutput = estimatedOutput', timestamp = now\<rparr>)"

definition getMeteorQuote :: "string \<Rightarrow> string \<Rightarrow> real \<Rightarrow> real \<Rightarrow> nat \<Rightarrow> DexQuote" where
  "getMeteorQuote tokenIn tokenOut amount r now =
     (let basePrice = getBasePrice tokenIn tokenOut;
          price' = applyPriceVariance basePrice 0.97 1.05 r;
          fee' = 0.002;
          estimatedOutput' = amount * price' * (1 - fee')
      in \<lparr>dex = Meteora, price = price', fee = fee',
          estimatedOutput = estimatedOutput', timestamp = now\<rparr>)"

record BestQuote =
  bq_raydiumQuote :: DexQuote
  bq_meteoraQuote :: DexQuote
  bestQuote :: DexQuote
  priceImprovement :: number

text \<open>
  \<open>rr\<close> and \<open>rm\<close> are the draws of the two venue quotes. The two quotes are awaited
  together; their values do not depend on the order of completion.
\<close>

definition getBestQuote ::
  "string \<Rightarrow> string \<Rightarrow> real \<Rightarrow> real \<Rightarrow> real \<Rightarrow> nat \<Rightarrow> BestQuote" where
  "getBestQuote tokenIn tokenOut amount rr rm now =
     (let raydiumQuote' = getRaydiumQuote tokenIn tokenOut amount rr now;
          meteoraQuote' = getMeteorQuote tokenIn tokenOut amount rm now;
          best = (if estimatedOutput raydiumQuote' > estimatedOutput meteoraQuote'
                  then raydiumQuote' else meteoraQuote');
          worseOutput = min (estimatedOutput raydiumQuote') (estimatedOutput meteoraQuote')
      in \<lparr>bq_raydiumQuote = raydiumQuote', bq_meteoraQuote = meteoraQuote',
          bestQuote = best,
          priceImprovement =
            js_times (js_div (estimatedOutput best - worseOutput) worseOutput) 100\<rparr>)"

text \<open>
  \<open>r\<close> is the draw of the slippage variance and \<open>rnd\<close> the draws of the transaction hash.
\<close>

definition executeSwap :: "OrderDetails \<Rightarrow> Dex \<Rightarrow> real \<Rightarrow> (nat \<Rightarrow> real) \<Rightarrow> nat \<Rightarrow> SwapResult" where
  "executeSwap order selectedDex r rnd now =
     (let basePrice = getBasePrice (od_tokenIn order) (od_tokenOut order);
          slippageVariance = 1 - (r * od_slippage order);
          executedPrice' = basePrice * slippageVariance;
          fee' = (if selectedDex = Raydium then 0.003 else 0.002);
          amountOut' = od_amount order * executedPrice' * (1 - fee')
      in \<lparr>swap_txHash = generateMockTxHash rnd,
          swap_executedPrice = executedPrice',
          swap_amountIn = od_amount order,
          swap_amountOut = amountOut',
          swap_dex = selectedDex,
          swap_timestamp = now\<rparr>)"


section \<open>The order record (src/models/order.ts)\<close>

datatype OrderStatus = Pending | Routing | Building | Submitted | Confirmed | Failed

text \<open>
  The field \<^verbatim>\<open>id\<close> is called \<open>order_id\<close>. A row of the table \<^verbatim>\<open>orders\<close> is kept in the
  shape \<^verbatim>\<open>mapRow\<close> gives it (a column that is \<^verbatim>\<open>NULL\<close> is \<open>None\<close>), and a cache entry in
  the shape \<^verbatim>\<open>JSON.parse\<close> gives back. Times are readings of a clock, in milliseconds.
\<close>

record Order =
  order_id :: string
  tokenIn :: string
  tokenOut :: string
  amount :: real
  slippage :: real
  status :: OrderStatus
  selectedDex :: "Dex option"
  raydiumQuote :: "DexQuote option"
  meteoraQuote :: "DexQuote option"
  executedPrice :: "real option"
  amountOut :: "real option"
  txHash :: "string option"
  errorMessage :: "string option"
  retryCount :: nat
  createdAt :: nat
  updatedAt :: nat

text \<open>
  \<^verbatim>\<open>Partial<Order>\<close>: every field of the order, each of them optional (\<open>None\<close> is
  \<^verbatim>\<open>undefined\<close>).
\<close>

record OrderPatch =
  p_id :: "string option"
  p_tokenIn :: "string option"
  p_tokenOut :: "string option"
  p_amount :: "real option"
  p_slippage :: "real option"
  p_status :: "OrderStatus option"
  p_selectedDex :: "Dex option"
  p_raydiumQuote :: "DexQuote option"
  p_meteoraQuote :: "DexQuote option"
  p_executedPrice :: "real option"
  p_amountOut :: "real option"
  p_txHash :: "string option"
  p_errorMessage :: "string option"
  p_retryCount :: "nat option"
  p_createdAt :: "nat option"
  p_updatedAt :: "nat option"

definition no_patch :: OrderPatch where
  "no_patch =
     \<lparr>p_id = None, p_tokenIn = None, p_tokenOut = None, p_amount = None, p_slippage = None,
      p_status = None, p_selectedDex = None, p_raydiumQuote = None, p_meteoraQuote = None,
      p_executedPrice = None, p_amountOut = None, p_txHash = None, p_errorMessage = None,
      p_retryCount = None, p_createdAt = None, p_updatedAt = None\<rparr>"


section \<open>Storage, subscribers and the queue\<close>

text \<open>One entry of the \<^verbatim>\<open>SET\<close> list of the \<^verbatim>\<open>UPDATE\<close> statement, with its value.\<close>

datatype Assignment =
    SetStatus OrderStatus
  | SetUpdatedAtNow
  | SetSelectedDex Dex
  | SetRaydiumQuote DexQuote
  | SetMeteoraQuote DexQuote
  | SetExecutedPrice real
  | SetAmountOut real
  | SetTxHash string
  | SetErrorMessage string
  | SetRetryCount nat

text \<open>The statements sent to the database: the insert of a row, the select and the update by id.\<close>

datatype Sql = INSERT Order | SELECT string | UPDATE string "Assignment list"

datatype UpdateData =
    MessageData string
  | PendingData string string real real
  | BuildingData Dex real number
  | ConfirmedData string real real Dex
  | FailedData string nat bool

text \<open>
  \<^verbatim>\<open>StatusUpdate\<close> of the subscriber registry. \<open>BuildingData\<close> carries the price
  improvement as a number (the source formats it with \<^verbatim>\<open>toFixed(3)\<close>), and
  \<open>FailedData\<close> is \<^verbatim>\<open>{error, retryCount, willRetry}\<close>.
\<close>

record StatusUpdate =
  su_orderId :: string
  su_status :: OrderStatus
  su_timestamp :: nat
  su_data :: "UpdateData option"

datatype ReadyState = CONNECTING | OPEN | CLOSING | CLOSED

text \<open>A socket is identified by \<open>ws_id\<close>; \<open>received\<close> are the messages sent to it so far.\<close>

record WebSocket =
  ws_id :: nat
  readyState :: ReadyState
  received :: "StatusUpdate list"

text \<open>
  The state the program works on: the table \<^verbatim>\<open>orders\<close> by id, the cache by key, the
  registry \<^verbatim>\<open>connections\<close>, the ids of the jobs of the queue, and the clock. Three
  fields only record what happened, in order: \<open>statements\<close> lists the statements sent to
  the database (whether they succeeded or not), \<open>written\<close> the status values that the
  statements really wrote, each with the id of its row, and \<open>broadcasts\<close> the updates
  handed to \<^verbatim>\<open>broadcastStatus\<close>. The connections to the database and to the cache are
  reliable in this model and a cache entry does not expire; a statement fails only when the
  database refuses one of its values.
\<close>

record System =
  db :: "string \<rightharpoonup> Order"
  cache :: "string \<rightharpoonup> Order"
  statements :: "Sql list"
  written :: "(string \<times> OrderStatus) list"
  connections :: "string \<rightharpoonup> WebSocket list"
  broadcasts :: "StatusUpdate list"
  queue :: "string list"
  clock :: nat

text \<open>
  What is thrown: an \<^verbatim>\<open>Error\<close> with its message (the text of a database error is
  shortened to its first words), or the \<^verbatim>\<open>TypeError\<close> of reading a property of
  \<^verbatim>\<open>undefined\<close> or \<^verbatim>\<open>null\<close>.
\<close>

datatype Error = Error string | TypeError string

fun message :: "Error \<Rightarrow> string" where
  "message (Error m) = m"
| "message (TypeError m) = m"


section \<open>The columns of the table (src/config/database.ts)\<close>

text \<open>
  \<^verbatim>\<open>DECIMAL(p, s)\<close> rounds a value to \<open>s\<close> decimals, a tie away from zero, and refuses
  it when the rounded value needs more than \<open>p - s\<close> digits before the point.
\<close>

definition round_to :: "nat \<Rightarrow> real \<Rightarrow> real" where
  "round_to n x =
     (if 0 \<le> x then real_of_int \<lfloor>x * 10 ^ n + 1 / 2\<rfloor> / 10 ^ n
      else - (real_of_int \<lfloor>- x * 10 ^ n + 1 / 2\<rfloor> / 10 ^ n))"

definition decimal_fits :: "nat \<Rightarrow> nat \<Rightarrow> real \<Rightarrow> bool" where
  "decimal_fits p n x = (\<bar>round_to n x\<bar> < 10 ^ (p - n))"

text \<open>
  \<^verbatim>\<open>VARCHAR(n)\<close> refuses a text of more than \<open>n\<close> characters unless the characters
  beyond the \<open>n\<close>-th are all spaces; it stores the first \<open>n\<close> characters. A string of the
  model is taken as a list of characters.
\<close>

definition varchar_fits :: "nat \<Rightarrow> string \<Rightarrow> bool" where
  "varchar_fits n t = list_all (\<lambda>c. c = CHR '' '') (drop n t)"

text \<open>A text value that holds the character of code 0 is refused by every text column.\<close>

definition text_fits :: "string \<Rightarrow> bool" where
  "text_fits t = (CHR 0x00 \<notin> set t)"

text \<open>
  The column \<^verbatim>\<open>id\<close> is of type \<^verbatim>\<open>UUID\<close>: a statement with an id that is no UUID text
  fails. The model takes as UUID texts the ones of the shape that the source itself checks
  before its select (\<open>uuidRegex_test\<close> below), and compares ids as texts. The columns
  \<^verbatim>\<open>status\<close> and \<^verbatim>\<open>selected_dex\<close> hold every status and venue name,
  \<^verbatim>\<open>error_message\<close> and the two quote columns have no limit, and the range of
  \<^verbatim>\<open>retry_count\<close> (\<^verbatim>\<open>INTEGER\<close>), which takes the attempt counter of a job, is not
  modelled.
\<close>


section \<open>The subscriber registry (src/services/websocket-manager.ts)\<close>

text \<open>
  Adding to a \<^verbatim>\<open>Set\<close> a socket that is already in it changes nothing. The handler that
  removes a socket when it closes is not modelled: no socket closes in the runs considered.
\<close>

definition registerConnection :: "string \<Rightarrow> WebSocket \<Rightarrow> System \<Rightarrow> System" where
  "registerConnection orderId ws s =
     (let orderConnections = (case connections s orderId of None \<Rightarrow> [] | Some wss \<Rightarrow> wss)
      in s\<lparr>connections := (connections s)(orderId \<mapsto>
            (if ws_id ws \<in> ws_id ` set orderConnections then orderConnections
             else orderConnections @ [ws]))\<rparr>)"

text \<open>
  The body of the loop of \<^verbatim>\<open>broadcastStatus\<close>: an open socket is sent the message, any
  other socket is skipped. A \<^verbatim>\<open>send\<close> that throws is caught by the source and is not
  modelled.
\<close>

definition deliver :: "StatusUpdate \<Rightarrow> WebSocket \<Rightarrow> WebSocket" where
  "deliver update ws =
     (if readyState ws = OPEN then ws\<lparr>received := received ws @ [update]\<rparr> else ws)"

definition broadcastStatus :: "StatusUpdate \<Rightarrow> System \<Rightarrow> System" where
  "broadcastStatus update s =
     (let s0 = s\<lparr>broadcasts := broadcasts s @ [update]\<rparr>
      in case connections s (su_orderId update) of
           None \<Rightarrow> s0
         | Some orderConnections \<Rightarrow>
             if orderConnections = [] then s0
             else s0\<lparr>connections := (connections s)(su_orderId update \<mapsto>
                    map (deliver update) orderConnections)\<rparr>)"


section \<open>The order store (src/models/order.ts)\<close>

text \<open>The parameter \<^verbatim>\<open>id\<close> of the source is written \<open>id'\<close>; the cache key is \<^verbatim>\<open>order:${id}\<close>.\<close>

definition cacheKey :: "string \<Rightarrow> string" where
  "cacheKey id' = ''order:'' @ id'"

text \<open>
  \<^verbatim>\<open>/^[0-9a-fA-F]{8}-[0-9a-fA-F]{4}-[0-9a-fA-F]{4}-[0-9a-fA-F]{4}-[0-9a-fA-F]{12}$/\<close>:
  \<open>hexRun n\<close> reads exactly \<open>n\<close> hexadecimal digits and \<open>hyphen\<close> one hyphen; each returns
  the rest of the input.
\<close>

definition hexDigit :: "char \<Rightarrow> bool" where
  "hexDigit c = (c \<in> set ''0123456789abcdefABCDEF'')"

fun hexRun :: "nat \<Rightarrow> string \<Rightarrow> string option" where
  "hexRun 0 cs = Some cs"
| "hexRun (Suc n) [] = None"
| "hexRun (Suc n) (c # cs) = (if hexDigit c then hexRun n cs else None)"

fun hyphen :: "string \<Rightarrow> string option" where
  "hyphen [] = None"
| "hyphen (c # cs) = (if c = CHR ''-'' then Some cs else None)"

definition uuidRegex_test :: "string \<Rightarrow> bool" where
  "uuidRegex_test id' =
     (Option.bind (Option.bind (Option.bind (Option.bind (Option.bind (Option.bind (Option.bind
        (Option.bind (hexRun 8 id') hyphen) (hexRun 4)) hyphen) (hexRun 4)) hyphen) (hexRun 4))
        hyphen) (hexRun 12) = Some [])"

text \<open>
  The row of an \<^verbatim>\<open>INSERT\<close> of \<^verbatim>\<open>create\<close>: the five values given, the status
  \<^verbatim>\<open>'pending'\<close>, the retry count 0, every other column \<^verbatim>\<open>NULL\<close>, and both times by
  default \<^verbatim>\<open>NOW()\<close>.
\<close>

definition insertedRow :: "string \<Rightarrow> string \<Rightarrow> string \<Rightarrow> real \<Rightarrow> real \<Rightarrow> nat \<Rightarrow> Order" where
  "insertedRow newId tokenIn' tokenOut' amount' slippage' now =
     \<lparr>order_id = newId, tokenIn = tokenIn', tokenOut = tokenOut',
      amount = amount', slippage = slippage', status = Pending,
      selectedDex = None, raydiumQuote = None, meteoraQuote = None,
      executedPrice = None, amountOut = None, txHash = None, errorMessage = None,
      retryCount = 0, createdAt = now, updatedAt = now\<rparr>"

text \<open>
  \<^verbatim>\<open>create\<close>: \<open>newId\<close> is the value of \<^verbatim>\<open>randomUUID()\<close>. The insert fails, and the
  error is thrown to the caller, when the id is no UUID text, a token holds the character
  of code 0 or does not fit \<^verbatim>\<open>VARCHAR(50)\<close>, the amount does not fit \<^verbatim>\<open>DECIMAL(20, 8)\<close> or the slippage
  \<^verbatim>\<open>DECIMAL(5, 4)\<close>, or the table already holds the id (\<^verbatim>\<open>PRIMARY KEY\<close>). The row
  that is stored, returned (\<^verbatim>\<open>RETURNING *\<close>) and cached holds the values as the columns
  keep them: the numbers rounded, the tokens cut to their length.
\<close>

definition create ::
  "string \<Rightarrow> string \<Rightarrow> string \<Rightarrow> real \<Rightarrow> real \<Rightarrow> System \<Rightarrow> (Error + Order) \<times> System" where
  "create newId tokenIn' tokenOut' amount' slippage' s =
     (let s1 = s\<lparr>statements := statements s
                  @ [INSERT (insertedRow newId tokenIn' tokenOut' amount' slippage' (clock s))]\<rparr>
      in if \<not> uuidRegex_test newId
         then (Inl (Error ''invalid input syntax for type uuid''), s1)
         else if \<not> (text_fits tokenIn' \<and> text_fits tokenOut')
         then (Inl (Error ''invalid byte sequence for encoding UTF8: 0x00''), s1)
         else if \<not> (varchar_fits 50 tokenIn' \<and> varchar_fits 50 tokenOut')
         then (Inl (Error ''value too long for type character varying(50)''), s1)
         else if \<not> (decimal_fits 20 8 amount' \<and> decimal_fits 5 4 slippage')
         then (Inl (Error ''numeric field overflow''), s1)
         else
           case db s newId of
             Some _ \<Rightarrow> (Inl (Error ''duplicate key value violates unique constraint''), s1)
           | None \<Rightarrow>
               (let row = insertedRow newId (take 50 tokenIn') (take 50 tokenOut')
                            (round_to 8 amount') (round_to 4 slippage') (clock s);
                    s2 = s1\<lparr>db := (db s1)(newId \<mapsto> row),
                           written := written s1 @ [(newId, Pending)]\<rparr>;
                    s3 = s2\<lparr>cache := (cache s2)(cacheKey newId \<mapsto> row)\<rparr>
                in (Inr row, s3)))"

definition getById :: "string \<Rightarrow> System \<Rightarrow> Order option \<times> System" where
  "getById id' s =
     (case cache s (cacheKey id') of
        Some cached \<Rightarrow> (Some cached, s)
      | None \<Rightarrow>
          if \<not> uuidRegex_test id' then (None, s)
          else
            (let s1 = s\<lparr>statements := statements s @ [SELECT id']\<rparr>
             in case db s id' of
                  None \<Rightarrow> (None, s1)
                | Some row \<Rightarrow> (Some row, s1\<lparr>cache := (cache s1)(cacheKey id' \<mapsto> row)\<rparr>)))"

text \<open>
  The list \<^verbatim>\<open>updates\<close> that \<^verbatim>\<open>updateStatus\<close> builds, each entry with the value pushed
  for its placeholder. \<^verbatim>\<open>additionalData\<close> is \<open>None\<close> when the argument is omitted. A
  venue and a quote that are present are truthy; a string is truthy when it is not empty.
\<close>

definition updates :: "OrderStatus \<Rightarrow> OrderPatch option \<Rightarrow> Assignment list" where
  "updates status' additionalData =
     [SetStatus status', SetUpdatedAtNow]
     @ (case Option.bind additionalData p_selectedDex of
          Some d \<Rightarrow> [SetSelectedDex d] | None \<Rightarrow> [])
     @ (case Option.bind additionalData p_raydiumQuote of
          Some q \<Rightarrow> [SetRaydiumQuote q] | None \<Rightarrow> [])
     @ (case Option.bind additionalData p_meteoraQuote of
          Some q \<Rightarrow> [SetMeteoraQuote q] | None \<Rightarrow> [])
     @ (case Option.bind additionalData p_executedPrice of
          Some x \<Rightarrow> [SetExecutedPrice x] | None \<Rightarrow> [])
     @ (case Option.bind additionalData p_amountOut of
          Some x \<Rightarrow> [SetAmountOut x] | None \<Rightarrow> [])
     @ (case Option.bind additionalData p_txHash of
          Some h \<Rightarrow> (if h \<noteq> [] then [SetTxHash h] else []) | None \<Rightarrow> [])
     @ (case Option.bind additionalData p_errorMessage of
          Some m \<Rightarrow> (if m \<noteq> [] then [SetErrorMessage m] else []) | None \<Rightarrow> [])
     @ (case Option.bind additionalData p_retryCount of
          Some n \<Rightarrow> [SetRetryCount n] | None \<Rightarrow> [])"

text \<open>
  What one entry of the \<^verbatim>\<open>SET\<close> list does to a row; \<open>now\<close> is \<^verbatim>\<open>NOW()\<close>. The two
  \<^verbatim>\<open>DECIMAL(20, 8)\<close> columns keep the value rounded and \<^verbatim>\<open>tx_hash\<close>, a
  \<^verbatim>\<open>VARCHAR(100)\<close>, the first 100 characters.
\<close>

fun assign :: "nat \<Rightarrow> Assignment \<Rightarrow> Order \<Rightarrow> Order" where
  "assign now (SetStatus st) row = row\<lparr>status := st\<rparr>"
| "assign now SetUpdatedAtNow row = row\<lparr>updatedAt := now\<rparr>"
| "assign now (SetSelectedDex d) row = row\<lparr>selectedDex := Some d\<rparr>"
| "assign now (SetRaydiumQuote q) row = row\<lparr>raydiumQuote := Some q\<rparr>"
| "assign now (SetMeteoraQuote q) row = row\<lparr>meteoraQuote := Some q\<rparr>"
| "assign now (SetExecutedPrice x) row = row\<lparr>executedPrice := Some (round_to 8 x)\<rparr>"
| "assign now (SetAmountOut x) row = row\<lparr>amountOut := Some (round_to 8 x)\<rparr>"
| "assign now (SetTxHash h) row = row\<lparr>txHash := Some (take 100 h)\<rparr>"
| "assign now (SetErrorMessage m) row = row\<lparr>errorMessage := Some m\<rparr>"
| "assign now (SetRetryCount n) row = row\<lparr>retryCount := n\<rparr>"

text \<open>
  The error of an entry whose value its column refuses. When several entries are refused,
  the model reports the error of the first.
\<close>

fun reject :: "Assignment \<Rightarrow> Error option" where
  "reject (SetExecutedPrice x) =
     (if decimal_fits 20 8 x then None else Some (Error ''numeric field overflow''))"
| "reject (SetAmountOut x) =
     (if decimal_fits 20 8 x then None else Some (Error ''numeric field overflow''))"
| "reject (SetTxHash h) =
     (if \<not> text_fits h then Some (Error ''invalid byte sequence for encoding UTF8: 0x00'')
      else if varchar_fits 100 h then None
      else Some (Error ''value too long for type character varying(100)''))"
| "reject (SetErrorMessage m) =
     (if text_fits m then None
      else Some (Error ''invalid byte sequence for encoding UTF8: 0x00''))"
| "reject a = None"

text \<open>
  \<^verbatim>\<open>UPDATE orders SET \<dots> WHERE id = $1\<close>. The statement fails when the id is no UUID
  text or a column refuses its value: the error is thrown, no row changes and
  \<^verbatim>\<open>redis.del\<close> is not reached. Otherwise it changes the row of that id when there is one
  and no row otherwise, and then \<^verbatim>\<open>redis.del\<close> removes the cache entry of the id.
\<close>

definition updateStatus ::
  "string \<Rightarrow> OrderStatus \<Rightarrow> OrderPatch option \<Rightarrow> System \<Rightarrow> (Error + unit) \<times> System" where
  "updateStatus id' status' additionalData s =
     (let us = updates status' additionalData;
          s1 = s\<lparr>statements := statements s @ [UPDATE id' us]\<rparr>
      in if \<not> uuidRegex_test id'
         then (Inl (Error ''invalid input syntax for type uuid''), s1)
         else
           case List.map_filter reject us of
             e # es \<Rightarrow> (Inl e, s1)
           | [] \<Rightarrow>
               (let s2 = (case db s id' of
                            None \<Rightarrow> s1
                          | Some row \<Rightarrow>
                              s1\<lparr>db := (db s)(id' \<mapsto> fold (assign (clock s)) us row),
                                 written := written s @ [(id', status')]\<rparr>)
                in (Inr (), s2\<lparr>cache := (cache s2)((cacheKey id') := None)\<rparr>)))"


section \<open>The queue and the worker (src/queues/order-queue.ts)\<close>

text \<open>
  \<^verbatim>\<open>addOrderToQueue\<close> adds a job whose id is the order id; the queue ignores a job whose
  id it already holds.
\<close>

definition addOrderToQueue :: "string \<Rightarrow> System \<Rightarrow> System" where
  "addOrderToQueue orderId s =
     s\<lparr>queue := (if orderId \<in> set (queue s) then queue s else queue s @ [orderId])\<rparr>"

text \<open>A job: \<^verbatim>\<open>job.data.orderId\<close> and \<^verbatim>\<open>job.attemptsMade\<close>.\<close>

record Job =
  job_orderId :: string
  attemptsMade :: nat

text \<open>The draws of one run of \<^verbatim>\<open>processOrder\<close>.\<close>

record Draws =
  raydiumDraw :: real
  meteoraDraw :: real
  slippageDraw :: real
  hashDraws :: "nat \<Rightarrow> real"

text \<open>
  The \<^verbatim>\<open>catch\<close> block of \<^verbatim>\<open>processOrder\<close>: it records the failure, broadcasts it and
  throws the error again (\<open>Inl\<close>), which hands the job to the retry logic of the queue.
  When its own update fails, the error of that update is thrown instead and nothing is
  broadcast. \<open>maxRetries\<close> is \<^verbatim>\<open>config.queue.maxRetries\<close>.
\<close>

definition processOrder_catch :: "nat \<Rightarrow> Job \<Rightarrow> Error \<Rightarrow> System \<Rightarrow> (Error + unit) \<times> System" where
  "processOrder_catch maxRetries job err s =
     (let orderId = job_orderId job;
          errorMessage' = message err
      in case updateStatus orderId Failed
                (Some (no_patch\<lparr>p_errorMessage := Some errorMessage',
                                p_retryCount := Some (attemptsMade job)\<rparr>)) s of
           (Inl err', s1) \<Rightarrow> (Inl err', s1)
         | (Inr u, s1) \<Rightarrow>
             (let s2 = broadcastStatus
                         \<lparr>su_orderId = orderId, su_status = Failed, su_timestamp = clock s1,
                          su_data = Some (FailedData errorMessage' (attemptsMade job)
                                            (attemptsMade job < maxRetries))\<rparr> s1
              in (Inl err, s2)))"

text \<open>
  \<^verbatim>\<open>processOrder\<close>: every update of the \<^verbatim>\<open>try\<close> block that throws leads into the
  \<^verbatim>\<open>catch\<close> block, as the missing order does. The venue router never throws.
\<close>

definition processOrder :: "nat \<Rightarrow> Draws \<Rightarrow> Job \<Rightarrow> System \<Rightarrow> (Error + unit) \<times> System" where
  "processOrder maxRetries d job s =
     (let orderId = job_orderId job
      in case getById orderId s of
           (None, s0) \<Rightarrow>
             processOrder_catch maxRetries job (Error (''Order '' @ orderId @ '' not found'')) s0
         | (Some order, s0) \<Rightarrow>
            (case updateStatus orderId Routing None s0 of
               (Inl err, s1) \<Rightarrow> processOrder_catch maxRetries job err s1
             | (Inr u1, s1) \<Rightarrow>
            (let s2 = broadcastStatus
                        \<lparr>su_orderId = orderId, su_status = Routing, su_timestamp = clock s1,
                         su_data = Some (MessageData ''Comparing DEX quotes...'')\<rparr> s1;
                 q = getBestQuote (tokenIn order) (tokenOut order) (amount order)
                       (raydiumDraw d) (meteoraDraw d) (clock s2)
             in case updateStatus orderId Building
                       (Some (no_patch\<lparr>p_selectedDex := Some (dex (bestQuote q)),
                                       p_raydiumQuote := Some (bq_raydiumQuote q),
                                       p_meteoraQuote := Some (bq_meteoraQuote q)\<rparr>)) s2 of
               (Inl err, s3) \<Rightarrow> processOrder_catch maxRetries job err s3
             | (Inr u3, s3) \<Rightarrow>
            (let s4 = broadcastStatus
                        \<lparr>su_orderId = orderId, su_status = Building, su_timestamp = clock s3,
                         su_data = Some (BuildingData (dex (bestQuote q))
                                           (estimatedOutput (bestQuote q))
                                           (priceImprovement q))\<rparr> s3
             in case updateStatus orderId Submitted None s4 of
               (Inl err, s5) \<Rightarrow> processOrder_catch maxRetries job err s5
             | (Inr u5, s5) \<Rightarrow>
            (let s6 = broadcastStatus
                        \<lparr>su_orderId = orderId, su_status = Submitted, su_timestamp = clock s5,
                         su_data = Some (MessageData ''Transaction submitted to blockchain...'')\<rparr>
                        s5;
                 swapResult = executeSwap
                        \<lparr>od_orderId = orderId, od_tokenIn = tokenIn order,
                         od_tokenOut = tokenOut order, od_amount = amount order,
                         od_slippage = slippage order\<rparr>
                        (dex (bestQuote q)) (slippageDraw d) (hashDraws d) (clock s6)
             in case updateStatus orderId Confirmed
                       (Some (no_patch\<lparr>p_executedPrice := Some (swap_executedPrice swapResult),
                                       p_amountOut := Some (swap_amountOut swapResult),
                                       p_txHash := Some (swap_txHash swapResult)\<rparr>)) s6 of
               (Inl err, s7) \<Rightarrow> processOrder_catch maxRetries job err s7
             | (Inr u7, s7) \<Rightarrow>
            (let s8 = broadcastStatus
                        \<lparr>su_orderId = orderId, su_status = Confirmed, su_timestamp = clock s7,
                         su_data = Some (ConfirmedData (swap_txHash swapResult)
                                           (swap_executedPrice swapResult)
                                           (swap_amountOut swapResult)
                                           (swap_dex swapResult))\<rparr> s7
             in (Inr (), s8)))))))"


section \<open>The submission route (src/routes/orders.ts)\<close>

text \<open>
  The request body is untyped (\<^verbatim>\<open>body: any\<close>). It is absent (\<^verbatim>\<open>undefined\<close>),
  \<^verbatim>\<open>null\<close>, or a value whose properties can be read: then each of the four properties
  that the route reads is any JSON value, \<open>JUndefined\<close> when the property is missing (as all
  four are for a body that is a number, a string, a boolean or an array). \<open>JObject\<close> stands
  for every object and array. A JSON body holds no \<^verbatim>\<open>NaN\<close>, so a number is a real;
  a literal that a double reads as \<^verbatim>\<open>Infinity\<close> or as 0 is outside the model, as the
  rounding of doubles is.
\<close>

datatype JsValue = JUndefined | JNull | JBoolean bool | JNumber real | JString string | JObject

datatype JsType = TUndefined | TObject | TBoolean | TNumber | TString

fun typeof :: "JsValue \<Rightarrow> JsType" where
  "typeof JUndefined = TUndefined"
| "typeof JNull = TObject"
| "typeof (JBoolean b) = TBoolean"
| "typeof (JNumber a) = TNumber"
| "typeof (JString t) = TString"
| "typeof JObject = TObject"

fun truthy :: "JsValue \<Rightarrow> bool" where
  "truthy JUndefined = False"
| "truthy JNull = False"
| "truthy (JBoolean b) = b"
| "truthy (JNumber a) = (a \<noteq> 0)"
| "truthy (JString t) = (t \<noteq> [])"
| "truthy JObject = True"

text \<open>The value of a property that has passed its \<^verbatim>\<open>typeof\<close> check.\<close>

fun numberOf :: "JsValue \<Rightarrow> real" where
  "numberOf (JNumber a) = a"
| "numberOf v = 0"

fun stringOf :: "JsValue \<Rightarrow> string" where
  "stringOf (JString t) = t"
| "stringOf v = []"

record Body =
  b_tokenIn :: JsValue
  b_tokenOut :: JsValue
  b_amount :: JsValue
  b_slippage :: JsValue

datatype RequestBody = NoBody | NullBody | Props Body

record Validation =
  valid :: bool
  error :: "string option"

text \<open>The error of reading the property \<^verbatim>\<open>tokenIn\<close> of \<^verbatim>\<open>undefined\<close> or \<^verbatim>\<open>null\<close>.\<close>

definition cannotRead :: "string \<Rightarrow> Error" where
  "cannotRead what =
     TypeError (''Cannot read properties of '' @ what @ '' (reading '' @ [CHR 0x27]
                @ ''tokenIn'' @ [CHR 0x27] @ '')'')"

text \<open>
  \<^verbatim>\<open>validateOrderRequest\<close>: its first test reads \<^verbatim>\<open>body.tokenIn\<close>, which throws for an
  absent and for a \<^verbatim>\<open>null\<close> body.
\<close>

definition validateOrderRequest :: "RequestBody \<Rightarrow> Error + Validation" where
  "validateOrderRequest body =
     (case body of
        NoBody \<Rightarrow> Inl (cannotRead ''undefined'')
      | NullBody \<Rightarrow> Inl (cannotRead ''null'')
      | Props b \<Rightarrow> Inr
     (if \<not> truthy (b_tokenIn b) \<or> typeof (b_tokenIn b) \<noteq> TString
      then \<lparr>valid = False, error = Some ''tokenIn is required and must be a string''\<rparr>
      else if \<not> truthy (b_tokenOut b) \<or> typeof (b_tokenOut b) \<noteq> TString
      then \<lparr>valid = False, error = Some ''tokenOut is required and must be a string''\<rparr>
      else if \<not> truthy (b_amount b) \<or> typeof (b_amount b) \<noteq> TNumber
              \<or> numberOf (b_amount b) \<le> 0
      then \<lparr>valid = False, error = Some ''amount is required and must be a positive number''\<rparr>
      else if b_slippage b = JUndefined \<or> typeof (b_slippage b) \<noteq> TNumber
              \<or> numberOf (b_slippage b) < 0 \<or> numberOf (b_slippage b) > 1
      then \<lparr>valid = False, error = Some ''slippage is required and must be between 0 and 1''\<rparr>
      else if b_tokenIn b = b_tokenOut b
      then \<lparr>valid = False, error = Some ''tokenIn and tokenOut must be different''\<rparr>
      else \<lparr>valid = True, error = None\<rparr>))"

text \<open>
  A request: its body, the header \<^verbatim>\<open>upgrade\<close>, and the socket that the upgrade to
  WebSocket hands to the route.
\<close>

record Request =
  body :: RequestBody
  upgrade :: "string option"
  socket :: WebSocket

datatype ReplyBody =
    ErrorBody string "string option"
  | CreatedBody string OrderStatus string string

text \<open>\<open>Reply code payload\<close> is an HTTP response; \<open>Hijacked\<close> is the upgraded connection.\<close>

datatype Reply = Reply nat ReplyBody | Hijacked

text \<open>The properties of a body that has them.\<close>

fun propsOf :: "RequestBody \<Rightarrow> Body" where
  "propsOf (Props b) = b"
| "propsOf x = \<lparr>b_tokenIn = JUndefined, b_tokenOut = JUndefined, b_amount = JUndefined,
                 b_slippage = JUndefined\<rparr>"

text \<open>
  \<^verbatim>\<open>executeOrder\<close>: the validation runs before the \<^verbatim>\<open>try\<close> block, so an error that it
  throws leaves the route (\<open>Inl\<close>) with no reply of the route; an error of \<^verbatim>\<open>create\<close> is
  caught and answered with the status 500. The body is read again only after the validation
  has returned, that is for a body with properties.
\<close>

definition executeOrder :: "Request \<Rightarrow> string \<Rightarrow> System \<Rightarrow> (Error + Reply) \<times> System" where
  "executeOrder request newId s =
     (case validateOrderRequest (body request) of
        Inl err \<Rightarrow> (Inl err, s)
      | Inr validation \<Rightarrow>
         if \<not> valid validation
         then (Inr (Reply 400 (ErrorBody ''Invalid request'' (error validation))), s)
         else
          (let b = propsOf (body request)
           in case create newId (stringOf (b_tokenIn b)) (stringOf (b_tokenOut b))
                     (numberOf (b_amount b)) (numberOf (b_slippage b)) s of
             (Inl err, s1) \<Rightarrow>
               (Inr (Reply 500 (ErrorBody ''Internal server error''
                                  (Some ''Failed to create order''))), s1)
           | (Inr order, s1) \<Rightarrow>
               if upgrade request = Some ''websocket''
               then
                 (let s2 = registerConnection (order_id order) (socket request) s1;
                      s3 = broadcastStatus
                             \<lparr>su_orderId = order_id order, su_status = Pending,
                              su_timestamp = clock s2,
                              su_data = Some (PendingData (tokenIn order) (tokenOut order)
                                                (amount order) (slippage order))\<rparr> s2;
                      s4 = addOrderToQueue (order_id order) s3
                  in (Inr Hijacked, s4))
               else
                 (Inr (Reply 201
                    (CreatedBody (order_id order) (status order)
                       ''Order created successfully. Connect via WebSocket for real-time updates.''
                       (''/api/orders/execute?orderId='' @ order_id order))),
                  addOrderToQueue (order_id order) s1)))"


section \<open>The state machine of the specification\<close>

text \<open>
  This relation follows the words of the specification, not the code (which has no table of
  transitions): pending to routing to building to submitted to confirmed; routing, building
  and submitted may go to failed; failed may go back to routing.
\<close>

definition spec_transition :: "OrderStatus \<Rightarrow> OrderStatus \<Rightarrow> bool" where
  "spec_transition a b =
     ((a, b) \<in> set [(Pending, Routing), (Routing, Building), (Building, Submitted),
                    (Submitted, Confirmed), (Routing, Failed), (Building, Failed),
                    (Submitted, Failed), (Failed, Routing)])"

text \<open>The status values written to the row of an id, in order, in a record of writes.\<close>

definition statusWrites :: "string \<Rightarrow> (string \<times> OrderStatus) list \<Rightarrow> OrderStatus list" where
  "statusWrites id' ws = map snd (filter (\<lambda>w. fst w = id') ws)"


section \<open>The state of a fresh deployment\<close>

text \<open>An empty table, an empty cache, no subscriber, no job; the clock reads 0.\<close>

definition initial :: System where
  "initial =
     \<lparr>db = Map.empty, cache = Map.empty, statements = [], written = [],
      connections = Map.empty, broadcasts = [], queue = [], clock = 0\<rparr>"

text \<open>The nil UUID, the id that the tests of the repository give to an order that does not exist.\<close>

definition nil_uuid :: string where
  "nil_uuid = ''00000000-0000-0000-0000-000000000000''"

text \<open>Draws that are all 0.\<close>

definition zero_draws :: Draws where
  "zero_draws = \<lparr>raydiumDraw = 0, meteoraDraw = 0, slippageDraw = 0, hashDraws = (\<lambda>i. 0)\<rparr>"

text \<open>
  A submission whose body holds two strings and two numbers; \<open>up\<close> is its header
  \<^verbatim>\<open>upgrade\<close>, and its socket is open and has received nothing.
\<close>

definition submission :: "string \<Rightarrow> string \<Rightarrow> real \<Rightarrow> real \<Rightarrow> string option \<Rightarrow> Request" where
  "submission ti to a x up =
     \<lparr>body = Props \<lparr>b_tokenIn = JString ti, b_tokenOut = JString to,
                    b_amount = JNumber a, b_slippage = JNumber x\<rparr>,
      upgrade = up,
      socket = \<lparr>ws_id = 0, readyState = OPEN, received = []\<rparr>\<rparr>"


section \<open>Properties of the venue router\<close>

lemma getBasePrice_pos: "0 < getBasePrice a b"
  by (simp add: getBasePrice_def basePrices_def Let_def)

lemma raydium_output_pos:
  "0 \<le> r \<Longrightarrow> 0 < amt \<Longrightarrow> 0 < estimatedOutput (getRaydiumQuote a b amt r t)"
  using getBasePrice_pos[of a b]
  by (simp add: getRaydiumQuote_def applyPriceVariance_def Let_def add_pos_nonneg)

lemma meteora_output_pos:
  "0 \<le> r \<Longrightarrow> 0 < amt \<Longrightarrow> 0 < estimatedOutput (getMeteorQuote a b amt r t)"
  using getBasePrice_pos[of a b]
  by (simp add: getMeteorQuote_def applyPriceVariance_def Let_def add_pos_nonneg)

lemma getBestQuote_quotes:
  "bq_raydiumQuote (getBestQuote a b amt rr rm t) = getRaydiumQuote a b amt rr t"
  "bq_meteoraQuote (getBestQuote a b amt rr rm t) = getMeteorQuote a b amt rm t"
  by (simp_all add: getBestQuote_def Let_def)

lemma getBestQuote_best:
  "bestQuote (getBestQuote a b amt rr rm t) =
     (if estimatedOutput (getRaydiumQuote a b amt rr t)
           > estimatedOutput (getMeteorQuote a b amt rm t)
      then getRaydiumQuote a b amt rr t else getMeteorQuote a b amt rm t)"
  by (simp add: getBestQuote_def Let_def)

lemma getBestQuote_improvement:
  "priceImprovement (getBestQuote a b amt rr rm t) =
     js_times (js_div
       (estimatedOutput (bestQuote (getBestQuote a b amt rr rm t))
          - min (estimatedOutput (getRaydiumQuote a b amt rr t))
                (estimatedOutput (getMeteorQuote a b amt rm t)))
       (min (estimatedOutput (getRaydiumQuote a b amt rr t))
            (estimatedOutput (getMeteorQuote a b amt rm t)))) 100"
  by (simp add: getBestQuote_def Let_def)

text \<open>
  For an amount above 0 and draws from 0 on, in the exact arithmetic of the model: the best
  quote is the Raydium quote when its estimated output is strictly greater and the Meteora
  quote otherwise, its estimated output is the greater of the two, and the price improvement
  is the finite number \<open>(best - worse) / worse * 100\<close>, at least 0.
\<close>

lemma getBestQuote_selects_better:
  assumes amt: "0 < amt" and rr: "0 \<le> rr" and rm: "0 \<le> rm"
  shows
    "let res = getBestQuote tin tout amt rr rm now;
         outR = estimatedOutput (bq_raydiumQuote res);
         outM = estimatedOutput (bq_meteoraQuote res);
         worseOutput = min outR outM
     in dex (bq_raydiumQuote res) = Raydium \<and> dex (bq_meteoraQuote res) = Meteora
        \<and> bestQuote res = (if outR > outM then bq_raydiumQuote res else bq_meteoraQuote res)
        \<and> estimatedOutput (bestQuote res) = max outR outM
        \<and> (if outR = outM
            then dex (bestQuote res) = Meteora \<and> priceImprovement res = Finite 0
            else priceImprovement res \<noteq> Finite 0)
        \<and> priceImprovement res
             = Finite ((estimatedOutput (bestQuote res) - worseOutput) / worseOutput * 100)
        \<and> js_ge (priceImprovement res) 0
        \<and> estimatedOutput (bestQuote res) \<ge> worseOutput"
proof -
  define R where "R = getRaydiumQuote tin tout amt rr now"
  define M where "M = getMeteorQuote tin tout amt rm now"
  have posR: "0 < estimatedOutput R"
    unfolding R_def using rr amt by (rule raydium_output_pos)
  have posM: "0 < estimatedOutput M"
    unfolding M_def using rm amt by (rule meteora_output_pos)
  have dR: "dex R = Raydium" by (simp add: R_def getRaydiumQuote_def Let_def)
  have dM: "dex M = Meteora" by (simp add: M_def getMeteorQuote_def Let_def)
  show ?thesis
  proof (cases "estimatedOutput R > estimatedOutput M")
    case True
    with posR posM dR dM show ?thesis
      by (simp add: getBestQuote_quotes getBestQuote_best getBestQuote_improvement
            R_def[symmetric] M_def[symmetric] Let_def js_div_def js_times_def js_ge_def
            min_def max_def)
  next
    case False
    with posR posM dR dM show ?thesis
      by (simp add: getBestQuote_quotes getBestQuote_best getBestQuote_improvement
            R_def[symmetric] M_def[symmetric] Let_def js_div_def js_times_def js_ge_def
            min_def max_def)
  qed
qed

text \<open>
  For the amount 0 the two estimated outputs are 0, the Meteora quote is selected and the
  price improvement is \<^verbatim>\<open>0 / 0 * 100\<close>, which is \<^verbatim>\<open>NaN\<close>.
\<close>

lemma getBestQuote_zero_amount:
  "priceImprovement (getBestQuote tin tout 0 rr rm now) = NaN"
  "dex (bestQuote (getBestQuote tin tout 0 rr rm now)) = Meteora"
  "estimatedOutput (bq_raydiumQuote (getBestQuote tin tout 0 rr rm now)) = 0"
  "estimatedOutput (bq_meteoraQuote (getBestQuote tin tout 0 rr rm now)) = 0"
  "estimatedOutput (bestQuote (getBestQuote tin tout 0 rr rm now)) = 0"
  by (simp_all add: getBestQuote_def getRaydiumQuote_def getMeteorQuote_def Let_def
        js_div_def js_times_def)

text \<open>
  C4, as the claim states it, fails at the slippage tolerance 0, which the submission route
  accepts: the executed price then equals the base price, so it is not strictly above
  \<open>basePrice * (1 - s)\<close>.
\<close>

theorem executeSwap_zero_slippage_not_strict:
  "\<not> (getBasePrice ''SOL'' ''USDC'' * (1 - 0)
        < swap_executedPrice (executeSwap
            \<lparr>od_orderId = ''o1'', od_tokenIn = ''SOL'', od_tokenOut = ''USDC'',
             od_amount = 3 / 2, od_slippage = 0\<rparr> Raydium (1 / 2) (\<lambda>i. 0) 0))"
  by (simp add: executeSwap_def Let_def)

text \<open>
  C4, amended: for a slippage tolerance \<open>s\<close> from 0 on and a draw \<open>r\<close> with \<open>0 \<le> r < 1\<close>,
  the executed price is \<open>basePrice * (1 - r * s)\<close> and lies between \<open>basePrice * (1 - s)\<close>
  and the base price, both included; at \<open>s = 0\<close> the executed price is the base price, and
  for any other \<open>s\<close> the lower bound is strict (in the exact arithmetic of the model); and
  the amount out is \<open>amount * executedPrice * (1 - fee)\<close> with the fee of the venue, 0.003
  for Raydium and 0.002 for Meteora.
\<close>

theorem executeSwap_price_bounds:
  assumes s: "0 \<le> od_slippage order" and r0: "0 \<le> r" and r1: "r < 1"
  shows
    "let res = executeSwap order venue r rnd now;
         basePrice = getBasePrice (od_tokenIn order) (od_tokenOut order);
         s = od_slippage order
     in swap_executedPrice res = basePrice * (1 - r * s)
        \<and> basePrice * (1 - s) \<le> swap_executedPrice res
        \<and> swap_executedPrice res \<le> basePrice
        \<and> (if s = 0 then swap_executedPrice res = basePrice
            else basePrice * (1 - s) < swap_executedPrice res)
        \<and> swap_amountOut res
            = od_amount order * swap_executedPrice res
                * (1 - (if venue = Raydium then 0.003 else 0.002))"
proof -
  have bp: "0 < getBasePrice (od_tokenIn order) (od_tokenOut order)"
    by (rule getBasePrice_pos)
  have le: "r * od_slippage order \<le> od_slippage order"
    using s r1 by (simp add: mult_left_le_one_le r0)
  have lt: "od_slippage order \<noteq> 0 \<Longrightarrow> r * od_slippage order < od_slippage order"
    using s r1 by simp
  have nn: "0 \<le> r * od_slippage order" using s r0 by simp
  show ?thesis
    using bp le lt nn by (simp add: executeSwap_def Let_def)
qed

theorem executeSwap_price_bounds_witness:
  "(0::real) \<le> 1 / 100 \<and> (0::real) \<le> 1 / 2 \<and> (1::real) / 2 < 1
   \<and> swap_executedPrice (executeSwap
         \<lparr>od_orderId = ''o1'', od_tokenIn = ''SOL'', od_tokenOut = ''USDC'',
          od_amount = 3 / 2, od_slippage = 1 / 100\<rparr> Raydium (1 / 2) (\<lambda>i. 0) 0) = 995 / 10
   \<and> swap_amountOut (executeSwap
         \<lparr>od_orderId = ''o1'', od_tokenIn = ''SOL'', od_tokenOut = ''USDC'',
          od_amount = 3 / 2, od_slippage = 1 / 100\<rparr> Raydium (1 / 2) (\<lambda>i. 0) 0)
       = 3 / 2 * (995 / 10) * (997 / 1000)"
  using executeSwap_price_bounds[of
         "\<lparr>od_orderId = ''o1'', od_tokenIn = ''SOL'', od_tokenOut = ''USDC'',
          od_amount = 3 / 2, od_slippage = 1 / 100\<rparr>" "1 / 2" Raydium "\<lambda>i. 0" 0]
  by (simp add: Let_def getBasePrice_def basePrices_def)


section \<open>Properties of the columns\<close>

text \<open>
  A slippage that the route accepts always fits its column; the sample values used below
  fit theirs and are stored as they are, while one billionth is stored as 0.
\<close>

lemma slippage_fits:
  assumes "0 \<le> x" "x \<le> 1"
  shows "decimal_fits 5 4 x"
proof -
  have "x * 10 ^ 4 + 1 / 2 \<le> 10001" using assms by simp
  then have "\<lfloor>x * 10 ^ 4 + 1 / 2\<rfloor> \<le> 10001" by (simp add: floor_le_iff)
  then have "real_of_int \<lfloor>x * 10 ^ 4 + 1 / 2\<rfloor> \<le> 10001" by linarith
  moreover have "0 \<le> \<lfloor>x * 10 ^ 4 + 1 / 2\<rfloor>" using assms by simp
  ultimately show ?thesis using assms by (simp add: decimal_fits_def round_to_def)
qed

lemma sample_fits:
  "text_fits ''SOL''" "text_fits ''USDC''" "varchar_fits 50 ''SOL''" "varchar_fits 50 ''USDC''"
  "decimal_fits 20 8 (3 / 2)" "round_to 8 (3 / 2) = 3 / 2" "round_to 4 (1 / 100) = 1 / 100"
  "round_to 4 1 = 1"
  by (simp_all add: text_fits_def varchar_fits_def decimal_fits_def round_to_def)

lemma tiny_fits:
  "decimal_fits 20 8 (1 / 1000000000)" "round_to 8 (1 / 1000000000) = 0"
  by (simp_all add: decimal_fits_def round_to_def)

lemma big_fits:
  "decimal_fits 20 8 11000000000" "round_to 8 11000000000 = 11000000000"
  "round_to 4 (1 / 2) = 1 / 2"
  by (simp_all add: decimal_fits_def round_to_def)

text \<open>
  With draws that are all 0 the transaction hash is 64 times the digit 0.
\<close>

lemma hash_zero: "generateMockTxHash (\<lambda>i. 0) = replicate 64 (CHR ''0'')"
  by (simp add: generateMockTxHash_def hex_chars_def map_replicate_const)

lemma hash_zero_fits:
  "text_fits (generateMockTxHash (\<lambda>i. 0))" "varchar_fits 100 (generateMockTxHash (\<lambda>i. 0))"
  by (simp_all add: hash_zero text_fits_def varchar_fits_def)

text \<open>
  A text of the UUID shape holds hexadecimal digits and hyphens only, so the message of a
  missing order never holds the character of code 0.
\<close>

lemma hexRun_chars:
  "hexRun n cs = Some r \<Longrightarrow> set cs \<subseteq> Collect hexDigit \<union> set r"
proof (induction n arbitrary: cs)
  case 0
  then show ?case by simp
next
  case (Suc n)
  then show ?case by (cases cs) (auto split: if_splits)
qed

lemma hyphen_chars: "hyphen cs = Some r \<Longrightarrow> set cs \<subseteq> {CHR ''-''} \<union> set r"
  by (cases cs) (auto split: if_splits)

lemma uuid_chars:
  assumes "uuidRegex_test i"
  shows "set i \<subseteq> Collect hexDigit \<union> {CHR ''-''}"
proof -
  from assms obtain r1 r2 r3 r4 r5 r6 r7 r8 where
    "hexRun 8 i = Some r1" "hyphen r1 = Some r2" "hexRun 4 r2 = Some r3" "hyphen r3 = Some r4"
    "hexRun 4 r4 = Some r5" "hyphen r5 = Some r6" "hexRun 4 r6 = Some r7" "hyphen r7 = Some r8"
    "hexRun 12 r8 = Some []"
    unfolding uuidRegex_test_def bind_eq_Some_conv by blast
  then have "set i \<subseteq> Collect hexDigit \<union> set r1" "set r1 \<subseteq> {CHR ''-''} \<union> set r2"
    "set r2 \<subseteq> Collect hexDigit \<union> set r3" "set r3 \<subseteq> {CHR ''-''} \<union> set r4"
    "set r4 \<subseteq> Collect hexDigit \<union> set r5" "set r5 \<subseteq> {CHR ''-''} \<union> set r6"
    "set r6 \<subseteq> Collect hexDigit \<union> set r7" "set r7 \<subseteq> {CHR ''-''} \<union> set r8"
    "set r8 \<subseteq> Collect hexDigit \<union> set []"
    by (simp_all only: hexRun_chars hyphen_chars)
  then show ?thesis by (simp only: set_simps Un_empty_right) blast
qed

lemma not_found_text:
  "uuidRegex_test i \<Longrightarrow> text_fits (''Order '' @ i @ '' not found'')"
  using uuid_chars[of i] by (auto simp add: text_fits_def hexDigit_def)

lemma nil_uuid_shape: "uuidRegex_test nil_uuid"
  by (simp add: nil_uuid_def uuidRegex_test_def hexDigit_def eval_nat_numeral)

lemma malformed_shape: "\<not> uuidRegex_test ''non-existent-id''"
  by (simp add: uuidRegex_test_def hexDigit_def eval_nat_numeral)


section \<open>Properties of the order store\<close>

text \<open>
  The row after the assignments of an update, in closed form, and the errors of an update.
\<close>

lemma fold_assign_head:
  "fold (assign now)
     ([SetStatus st, SetUpdatedAtNow]
      @ (case x1 of Some d \<Rightarrow> [SetSelectedDex d] | None \<Rightarrow> [])
      @ (case x2 of Some q \<Rightarrow> [SetRaydiumQuote q] | None \<Rightarrow> [])
      @ (case x3 of Some q \<Rightarrow> [SetMeteoraQuote q] | None \<Rightarrow> [])
      @ (case x4 of Some x \<Rightarrow> [SetExecutedPrice x] | None \<Rightarrow> [])
      @ rest) row =
   fold (assign now) rest
     (row\<lparr>status := st, updatedAt := now,
          selectedDex := (case x1 of Some d \<Rightarrow> Some d | None \<Rightarrow> selectedDex row),
          raydiumQuote := (case x2 of Some q \<Rightarrow> Some q | None \<Rightarrow> raydiumQuote row),
          meteoraQuote := (case x3 of Some q \<Rightarrow> Some q | None \<Rightarrow> meteoraQuote row),
          executedPrice := (case x4 of Some x \<Rightarrow> Some (round_to 8 x)
                            | None \<Rightarrow> executedPrice row)\<rparr>)"
  by (simp split: option.split)

lemma fold_assign_tail:
  "fold (assign now)
     ((case x5 of Some x \<Rightarrow> [SetAmountOut x] | None \<Rightarrow> [])
      @ (case x6 of Some h \<Rightarrow> (if h \<noteq> [] then [SetTxHash h] else []) | None \<Rightarrow> [])
      @ (case x7 of Some m \<Rightarrow> (if m \<noteq> [] then [SetErrorMessage m] else []) | None \<Rightarrow> [])
      @ (case x8 of Some n \<Rightarrow> [SetRetryCount n] | None \<Rightarrow> [])) row =
   row\<lparr>amountOut := (case x5 of Some x \<Rightarrow> Some (round_to 8 x) | None \<Rightarrow> amountOut row),
       txHash := (case x6 of Some h \<Rightarrow> if h \<noteq> [] then Some (take 100 h) else txHash row
                  | None \<Rightarrow> txHash row),
       errorMessage := (case x7 of Some m \<Rightarrow> if m \<noteq> [] then Some m else errorMessage row
                        | None \<Rightarrow> errorMessage row),
       retryCount := (case x8 of Some n \<Rightarrow> n | None \<Rightarrow> retryCount row)\<rparr>"
  by (simp split: option.split)

lemma fold_assign_updates:
  "fold (assign now) (updates st patch) row =
     row\<lparr>status := st, updatedAt := now,
         selectedDex := (case Option.bind patch p_selectedDex of
                           Some d \<Rightarrow> Some d | None \<Rightarrow> selectedDex row),
         raydiumQuote := (case Option.bind patch p_raydiumQuote of
                           Some q \<Rightarrow> Some q | None \<Rightarrow> raydiumQuote row),
         meteoraQuote := (case Option.bind patch p_meteoraQuote of
                           Some q \<Rightarrow> Some q | None \<Rightarrow> meteoraQuote row),
         executedPrice := (case Option.bind patch p_executedPrice of
                           Some x \<Rightarrow> Some (round_to 8 x) | None \<Rightarrow> executedPrice row),
         amountOut := (case Option.bind patch p_amountOut of
                           Some x \<Rightarrow> Some (round_to 8 x) | None \<Rightarrow> amountOut row),
         txHash := (case Option.bind patch p_txHash of
                           Some h \<Rightarrow> if h \<noteq> [] then Some (take 100 h) else txHash row
                         | None \<Rightarrow> txHash row),
         errorMessage := (case Option.bind patch p_errorMessage of
                           Some m \<Rightarrow> if m \<noteq> [] then Some m else errorMessage row
                         | None \<Rightarrow> errorMessage row),
         retryCount := (case Option.bind patch p_retryCount of
                           Some n \<Rightarrow> n | None \<Rightarrow> retryCount row)\<rparr>"
  unfolding updates_def fold_assign_head fold_assign_tail
  by (simp cong: option.case_cong if_cong)

lemma status_fold_updates: "status (fold (assign now) (updates st patch) row) = st"
  by (simp add: fold_assign_updates)

lemma map_filter_append:
  "List.map_filter f (xs @ ys) = List.map_filter f xs @ List.map_filter f ys"
  by (simp add: List.map_filter_def)

lemma rejected_updates:
  "List.map_filter reject (updates st patch) =
     (case Option.bind patch p_executedPrice of
        Some x \<Rightarrow> (if decimal_fits 20 8 x then [] else [Error ''numeric field overflow''])
      | None \<Rightarrow> [])
     @ (case Option.bind patch p_amountOut of
        Some x \<Rightarrow> (if decimal_fits 20 8 x then [] else [Error ''numeric field overflow''])
      | None \<Rightarrow> [])
     @ (case Option.bind patch p_txHash of
        Some h \<Rightarrow> (if \<not> text_fits h
                   then [Error ''invalid byte sequence for encoding UTF8: 0x00'']
                   else if varchar_fits 100 h then []
                   else [Error ''value too long for type character varying(100)''])
      | None \<Rightarrow> [])
     @ (case Option.bind patch p_errorMessage of
        Some m \<Rightarrow> (if text_fits m then []
                   else [Error ''invalid byte sequence for encoding UTF8: 0x00''])
      | None \<Rightarrow> [])"
proof -
  have s1: "\<And>x. List.map_filter reject (case x of Some d \<Rightarrow> [SetSelectedDex d] | None \<Rightarrow> []) = []"
    by (simp add: List.map_filter_def split: option.split)
  have s2: "\<And>x. List.map_filter reject (case x of Some q \<Rightarrow> [SetRaydiumQuote q] | None \<Rightarrow> []) = []"
    by (simp add: List.map_filter_def split: option.split)
  have s3: "\<And>x. List.map_filter reject (case x of Some q \<Rightarrow> [SetMeteoraQuote q] | None \<Rightarrow> []) = []"
    by (simp add: List.map_filter_def split: option.split)
  have s4: "\<And>x. List.map_filter reject (case x of Some y \<Rightarrow> [SetExecutedPrice y] | None \<Rightarrow> [])
              = (case x of Some y \<Rightarrow> (if decimal_fits 20 8 y then []
                                        else [Error ''numeric field overflow''])
                 | None \<Rightarrow> [])"
    by (simp add: List.map_filter_def split: option.split)
  have s5: "\<And>x. List.map_filter reject (case x of Some y \<Rightarrow> [SetAmountOut y] | None \<Rightarrow> [])
              = (case x of Some y \<Rightarrow> (if decimal_fits 20 8 y then []
                                        else [Error ''numeric field overflow''])
                 | None \<Rightarrow> [])"
    by (simp add: List.map_filter_def split: option.split)
  have s6: "\<And>x. List.map_filter reject
                   (case x of Some h \<Rightarrow> (if h \<noteq> [] then [SetTxHash h] else []) | None \<Rightarrow> [])
              = (case x of Some h \<Rightarrow> (if \<not> text_fits h
                           then [Error ''invalid byte sequence for encoding UTF8: 0x00'']
                           else if varchar_fits 100 h then []
                           else [Error ''value too long for type character varying(100)''])
                 | None \<Rightarrow> [])"
    by (simp add: List.map_filter_def varchar_fits_def text_fits_def split: option.split)
  have s7: "\<And>x. List.map_filter reject
                   (case x of Some m \<Rightarrow> (if m \<noteq> [] then [SetErrorMessage m] else [])
                    | None \<Rightarrow> [])
              = (case x of Some m \<Rightarrow> (if text_fits m then []
                           else [Error ''invalid byte sequence for encoding UTF8: 0x00''])
                 | None \<Rightarrow> [])"
    by (simp add: List.map_filter_def text_fits_def split: option.split)
  have s8: "\<And>x. List.map_filter reject (case x of Some n \<Rightarrow> [SetRetryCount n] | None \<Rightarrow> []) = []"
    by (simp add: List.map_filter_def split: option.split)
  have s0: "List.map_filter reject [SetStatus st, SetUpdatedAtNow] = []"
    by (simp add: List.map_filter_def)
  show ?thesis
    unfolding updates_def map_filter_append s0 s1 s2 s3 s4 s5 s6 s7 s8 by simp
qed

text \<open>
  \<^verbatim>\<open>updateStatus\<close> returns exactly when the database accepts the id and every value.
  Whether it returns or throws, it sends its statement and leaves the subscribers, the
  queue and the clock alone; when it throws, the table and the cache stay as they were.
\<close>

lemma updateStatus_returns_iff:
  "(fst (updateStatus i st p s) = Inr ())
     = (uuidRegex_test i \<and> List.map_filter reject (updates st p) = [])"
  by (simp add: updateStatus_def Let_def split: list.split)

lemma updateStatus_always:
  "statements (snd (updateStatus i st p s)) = statements s @ [UPDATE i (updates st p)]"
  "broadcasts (snd (updateStatus i st p s)) = broadcasts s"
  "connections (snd (updateStatus i st p s)) = connections s"
  "queue (snd (updateStatus i st p s)) = queue s"
  "clock (snd (updateStatus i st p s)) = clock s"
  by (simp_all add: updateStatus_def Let_def split: list.split option.split)

lemma updateStatus_returned:
  assumes "fst (updateStatus i st p s) = Inr ()"
  shows "db (snd (updateStatus i st p s)) =
           (case db s i of None \<Rightarrow> db s
            | Some row \<Rightarrow> (db s)(i \<mapsto> fold (assign (clock s)) (updates st p) row))"
    and "cache (snd (updateStatus i st p s)) = (cache s)(cacheKey i := None)"
    and "written (snd (updateStatus i st p s)) =
           written s @ (case db s i of None \<Rightarrow> [] | Some row \<Rightarrow> [(i, st)])"
  using assms
  by (simp_all add: updateStatus_def Let_def split: list.splits option.splits if_splits)

lemma updateStatus_thrown:
  assumes "fst (updateStatus i st p s) = Inl e"
  shows "db (snd (updateStatus i st p s)) = db s"
    and "cache (snd (updateStatus i st p s)) = cache s"
    and "written (snd (updateStatus i st p s)) = written s"
  using assms
  by (simp_all add: updateStatus_def Let_def split: list.splits option.splits if_splits)

lemma create_sample:
  "create nil_uuid ''SOL'' ''USDC'' (3 / 2) (1 / 100) initial
     = (Inr (insertedRow nil_uuid ''SOL'' ''USDC'' (3 / 2) (1 / 100) 0),
        initial\<lparr>statements := [INSERT (insertedRow nil_uuid ''SOL'' ''USDC'' (3 / 2) (1 / 100) 0)],
                db := [nil_uuid \<mapsto> insertedRow nil_uuid ''SOL'' ''USDC'' (3 / 2) (1 / 100) 0],
                written := [(nil_uuid, Pending)],
                cache := [cacheKey nil_uuid \<mapsto>
                            insertedRow nil_uuid ''SOL'' ''USDC'' (3 / 2) (1 / 100) 0]\<rparr>)"
  using nil_uuid_shape
  by (simp add: create_def Let_def initial_def varchar_fits_def text_fits_def decimal_fits_def
        round_to_def)

text \<open>
  C5: for every id, status and patch, once \<^verbatim>\<open>updateStatus\<close> has returned (the database
  has not refused the update) the cache holds no entry under the key of that id. The row of
  the id, when there is one, then carries the new status, the time of the update and what
  the source writes of the patch: the venue and the two quotes when present, the executed
  price and the amount out when defined (rounded to the 8 decimals of their columns), the
  transaction hash (cut to the 100 characters of its column) and the error message when
  present and not empty, and the retry count when defined; every other column keeps its
  value. The next \<^verbatim>\<open>getById\<close> of that id misses the cache, reads the stored row and puts
  it back into the cache. The witness is the update to confirmed of the repository's test.
\<close>

theorem updateStatus_invalidates_cache:
  assumes "fst (updateStatus id' st patch s) = Inr ()"
  shows
    "let s' = snd (updateStatus id' st patch s)
     in cache s' (cacheKey id') = None
        \<and> db s' id' = map_option
             (\<lambda>row. row\<lparr>status := st, updatedAt := clock s,
                selectedDex := (case Option.bind patch p_selectedDex of
                                  Some d \<Rightarrow> Some d | None \<Rightarrow> selectedDex row),
                raydiumQuote := (case Option.bind patch p_raydiumQuote of
                                  Some q \<Rightarrow> Some q | None \<Rightarrow> raydiumQuote row),
                meteoraQuote := (case Option.bind patch p_meteoraQuote of
                                  Some q \<Rightarrow> Some q | None \<Rightarrow> meteoraQuote row),
                executedPrice := (case Option.bind patch p_executedPrice of
                                  Some x \<Rightarrow> Some (round_to 8 x) | None \<Rightarrow> executedPrice row),
                amountOut := (case Option.bind patch p_amountOut of
                                  Some x \<Rightarrow> Some (round_to 8 x) | None \<Rightarrow> amountOut row),
                txHash := (case Option.bind patch p_txHash of
                                  Some h \<Rightarrow> if h \<noteq> [] then Some (take 100 h) else txHash row
                                | None \<Rightarrow> txHash row),
                errorMessage := (case Option.bind patch p_errorMessage of
                                  Some m \<Rightarrow> if m \<noteq> [] then Some m else errorMessage row
                                | None \<Rightarrow> errorMessage row),
                retryCount := (case Option.bind patch p_retryCount of
                                  Some n \<Rightarrow> n | None \<Rightarrow> retryCount row)\<rparr>)
             (db s id')
        \<and> fst (getById id' s') = db s' id'
        \<and> cache (snd (getById id' s')) (cacheKey id') = db s' id'"
proof -
  have shape: "uuidRegex_test id'"
    using assms by (simp add: updateStatus_returns_iff)
  have c: "cache (snd (updateStatus id' st patch s)) (cacheKey id') = None"
    by (simp add: updateStatus_returned(2)[OF assms])
  have d: "db (snd (updateStatus id' st patch s)) id'
             = map_option (fold (assign (clock s)) (updates st patch)) (db s id')"
    by (simp add: updateStatus_returned(1)[OF assms] split: option.split)
  show ?thesis
    unfolding Let_def
    using shape c
    by (simp add: d fold_assign_updates getById_def Let_def split: option.split)
qed

theorem updateStatus_invalidates_cache_witness:
  "fst (updateStatus nil_uuid Confirmed
          (Some (no_patch\<lparr>p_selectedDex := Some Meteora, p_executedPrice := Some (10025 / 100),
                          p_amountOut := Some (5505 / 10),
                          p_txHash := Some ''test-tx-hash-123''\<rparr>))
          (snd (create nil_uuid ''SOL'' ''USDC'' (3 / 2) (1 / 100) initial))) = Inr ()
   \<and> cache (snd (create nil_uuid ''SOL'' ''USDC'' (3 / 2) (1 / 100) initial)) (cacheKey nil_uuid)
        \<noteq> None
   \<and> cache (snd (updateStatus nil_uuid Confirmed
          (Some (no_patch\<lparr>p_selectedDex := Some Meteora, p_executedPrice := Some (10025 / 100),
                          p_amountOut := Some (5505 / 10),
                          p_txHash := Some ''test-tx-hash-123''\<rparr>))
          (snd (create nil_uuid ''SOL'' ''USDC'' (3 / 2) (1 / 100) initial)))) (cacheKey nil_uuid)
        = None
   \<and> db (snd (updateStatus nil_uuid Confirmed
          (Some (no_patch\<lparr>p_selectedDex := Some Meteora, p_executedPrice := Some (10025 / 100),
                          p_amountOut := Some (5505 / 10),
                          p_txHash := Some ''test-tx-hash-123''\<rparr>))
          (snd (create nil_uuid ''SOL'' ''USDC'' (3 / 2) (1 / 100) initial)))) nil_uuid
        = Some ((insertedRow nil_uuid ''SOL'' ''USDC'' (3 / 2) (1 / 100) 0)
                  \<lparr>status := Confirmed, selectedDex := Some Meteora,
                    executedPrice := Some (10025 / 100), amountOut := Some (5505 / 10),
                    txHash := Some ''test-tx-hash-123''\<rparr>)"
proof -
  have r: "fst (updateStatus nil_uuid Confirmed
          (Some (no_patch\<lparr>p_selectedDex := Some Meteora, p_executedPrice := Some (10025 / 100),
                          p_amountOut := Some (5505 / 10),
                          p_txHash := Some ''test-tx-hash-123''\<rparr>))
          (snd (create nil_uuid ''SOL'' ''USDC'' (3 / 2) (1 / 100) initial))) = Inr ()"
    using nil_uuid_shape
    by (simp add: updateStatus_returns_iff rejected_updates no_patch_def decimal_fits_def
          round_to_def varchar_fits_def text_fits_def)
  show ?thesis
    using updateStatus_invalidates_cache[OF r] r
    unfolding create_sample
    by (simp add: Let_def initial_def no_patch_def insertedRow_def round_to_def)
qed

text \<open>
  C8: \<^verbatim>\<open>getById\<close> looks into the cache first and on a hit returns the cached order at
  once, the state untouched; on a miss with a malformed id it returns absent, again with
  the state untouched, so no statement is sent to the database; on a miss with a UUID-shaped
  id that has no row it returns absent after the one select. Absent is a value of the result
  (\<open>None\<close>): the function has no \<^verbatim>\<open>throw\<close>, and with the reliable connections of this
  model it returns in every case.
\<close>

theorem getById_cache_aside:
  "(cache s (cacheKey id') = Some cached \<longrightarrow> getById id' s = (Some cached, s))
   \<and> (cache s (cacheKey id') = None \<and> \<not> uuidRegex_test id'
        \<longrightarrow> getById id' s = (None, s))
   \<and> (cache s (cacheKey id') = None \<and> uuidRegex_test id' \<and> db s id' = None
        \<longrightarrow> getById id' s = (None, s\<lparr>statements := statements s @ [SELECT id']\<rparr>))"
  by (simp add: getById_def Let_def)

theorem getById_cache_aside_witness:
  "\<not> uuidRegex_test ''non-existent-id'' \<and> uuidRegex_test nil_uuid
   \<and> getById ''non-existent-id'' initial = (None, initial)
   \<and> getById nil_uuid initial = (None, initial\<lparr>statements := [SELECT nil_uuid]\<rparr>)
   \<and> getById nil_uuid (snd (create nil_uuid ''SOL'' ''USDC'' (3 / 2) (1 / 100) initial))
       = (Some (insertedRow nil_uuid ''SOL'' ''USDC'' (3 / 2) (1 / 100) 0),
          snd (create nil_uuid ''SOL'' ''USDC'' (3 / 2) (1 / 100) initial))"
  using getById_cache_aside[of initial "''non-existent-id''"]
        getById_cache_aside[of initial nil_uuid]
        getById_cache_aside[of "snd (create nil_uuid ''SOL'' ''USDC'' (3 / 2) (1 / 100) initial)"
           nil_uuid "insertedRow nil_uuid ''SOL'' ''USDC'' (3 / 2) (1 / 100) 0"]
        nil_uuid_shape malformed_shape
  by (simp add: create_sample) (simp add: initial_def)

text \<open>
  C9: when the cache holds an entry under the key of an id, \<^verbatim>\<open>getById\<close> returns that entry
  and leaves the state as it is: no shape check decides the result and no statement is sent.
  The witness is a malformed id whose key is in the cache: the cached order comes back.
\<close>

theorem getById_cached_unvalidated:
  assumes "cache s (cacheKey id') = Some cached"
  shows "getById id' s = (Some cached, s)
         \<and> statements (snd (getById id' s)) = statements s
         \<and> db (snd (getById id' s)) = db s
         \<and> cache (snd (getById id' s)) = cache s"
  using assms by (simp add: getById_def)

theorem getById_cached_unvalidated_witness:
  "\<not> uuidRegex_test ''test-order-123''
   \<and> fst (getById ''test-order-123''
        (initial\<lparr>cache := [cacheKey ''test-order-123'' \<mapsto>
             insertedRow ''test-order-123'' ''SOL'' ''USDC'' 2 (1 / 100) 0]\<rparr>))
      = Some (insertedRow ''test-order-123'' ''SOL'' ''USDC'' 2 (1 / 100) 0)
   \<and> statements (snd (getById ''test-order-123''
        (initial\<lparr>cache := [cacheKey ''test-order-123'' \<mapsto>
             insertedRow ''test-order-123'' ''SOL'' ''USDC'' 2 (1 / 100) 0]\<rparr>))) = []"
  using getById_cached_unvalidated[of
          "initial\<lparr>cache := [cacheKey ''test-order-123'' \<mapsto>
             insertedRow ''test-order-123'' ''SOL'' ''USDC'' 2 (1 / 100) 0]\<rparr>"
          "''test-order-123''" "insertedRow ''test-order-123'' ''SOL'' ''USDC'' 2 (1 / 100) 0"]
  by (simp add: initial_def uuidRegex_test_def hexDigit_def eval_nat_numeral)

text \<open>
  C10: an update of an existing row, when the database accepts it, writes the status and
  \<^verbatim>\<open>updated_at\<close>, and of the patch exactly the venue and the two quotes when present, the
  executed price, the amount out and the retry count when defined, and the transaction hash
  and the error message when present and not empty; the two prices are stored rounded to the
  8 decimals of their columns and the hash cut to the 100 characters of its column. The six
  other columns keep their values (whatever the patch says about them), and so does every
  other row. An update that the database refuses changes no row at all. In the witness the
  patch carries an empty error message and a token: the stored message and the stored token
  stay.
\<close>

theorem updateStatus_frame:
  assumes "db s id' = Some row"
  shows
    "case fst (updateStatus id' st patch s) of
       Inl e \<Rightarrow> db (snd (updateStatus id' st patch s)) = db s
     | Inr u \<Rightarrow>
        (\<exists>row'. db (snd (updateStatus id' st patch s)) = (db s)(id' \<mapsto> row')
          \<and> status row' = st \<and> updatedAt row' = clock s
          \<and> selectedDex row' = (case Option.bind patch p_selectedDex of
                                   Some d \<Rightarrow> Some d | None \<Rightarrow> selectedDex row)
          \<and> raydiumQuote row' = (case Option.bind patch p_raydiumQuote of
                                   Some q \<Rightarrow> Some q | None \<Rightarrow> raydiumQuote row)
          \<and> meteoraQuote row' = (case Option.bind patch p_meteoraQuote of
                                   Some q \<Rightarrow> Some q | None \<Rightarrow> meteoraQuote row)
          \<and> executedPrice row' = (case Option.bind patch p_executedPrice of
                                   Some x \<Rightarrow> Some (round_to 8 x) | None \<Rightarrow> executedPrice row)
          \<and> amountOut row' = (case Option.bind patch p_amountOut of
                                   Some x \<Rightarrow> Some (round_to 8 x) | None \<Rightarrow> amountOut row)
          \<and> txHash row' = (case Option.bind patch p_txHash of
                                   Some h \<Rightarrow> if h \<noteq> [] then Some (take 100 h) else txHash row
                                 | None \<Rightarrow> txHash row)
          \<and> errorMessage row' = (case Option.bind patch p_errorMessage of
                                   Some m \<Rightarrow> if m \<noteq> [] then Some m else errorMessage row
                                 | None \<Rightarrow> errorMessage row)
          \<and> retryCount row' = (case Option.bind patch p_retryCount of
                                   Some n \<Rightarrow> n | None \<Rightarrow> retryCount row)
          \<and> order_id row' = order_id row \<and> tokenIn row' = tokenIn row
          \<and> tokenOut row' = tokenOut row \<and> amount row' = amount row
          \<and> slippage row' = slippage row \<and> createdAt row' = createdAt row)"
proof (cases "fst (updateStatus id' st patch s)")
  case (Inl e)
  then show ?thesis by (simp add: updateStatus_thrown(1))
next
  case (Inr u)
  then have r: "fst (updateStatus id' st patch s) = Inr ()" by simp
  have "db (snd (updateStatus id' st patch s))
          = (db s)(id' \<mapsto> fold (assign (clock s)) (updates st patch) row)"
    using assms by (simp add: updateStatus_returned(1)[OF r])
  then have "\<exists>row'. db (snd (updateStatus id' st patch s)) = (db s)(id' \<mapsto> row')
          \<and> status row' = st \<and> updatedAt row' = clock s
          \<and> selectedDex row' = (case Option.bind patch p_selectedDex of
                                   Some d \<Rightarrow> Some d | None \<Rightarrow> selectedDex row)
          \<and> raydiumQuote row' = (case Option.bind patch p_raydiumQuote of
                                   Some q \<Rightarrow> Some q | None \<Rightarrow> raydiumQuote row)
          \<and> meteoraQuote row' = (case Option.bind patch p_meteoraQuote of
                                   Some q \<Rightarrow> Some q | None \<Rightarrow> meteoraQuote row)
          \<and> executedPrice row' = (case Option.bind patch p_executedPrice of
                                   Some x \<Rightarrow> Some (round_to 8 x) | None \<Rightarrow> executedPrice row)
          \<and> amountOut row' = (case Option.bind patch p_amountOut of
                                   Some x \<Rightarrow> Some (round_to 8 x) | None \<Rightarrow> amountOut row)
          \<and> txHash row' = (case Option.bind patch p_txHash of
                                   Some h \<Rightarrow> if h \<noteq> [] then Some (take 100 h) else txHash row
                                 | None \<Rightarrow> txHash row)
          \<and> errorMessage row' = (case Option.bind patch p_errorMessage of
                                   Some m \<Rightarrow> if m \<noteq> [] then Some m else errorMessage row
                                 | None \<Rightarrow> errorMessage row)
          \<and> retryCount row' = (case Option.bind patch p_retryCount of
                                   Some n \<Rightarrow> n | None \<Rightarrow> retryCount row)
          \<and> order_id row' = order_id row \<and> tokenIn row' = tokenIn row
          \<and> tokenOut row' = tokenOut row \<and> amount row' = amount row
          \<and> slippage row' = slippage row \<and> createdAt row' = createdAt row"
    by (rule_tac x = "fold (assign (clock s)) (updates st patch) row" in exI)
       (simp add: fold_assign_updates cong: option.case_cong if_cong)
  with Inr show ?thesis by simp
qed

theorem updateStatus_frame_witness:
  "fst (updateStatus nil_uuid Routing
       (Some (no_patch\<lparr>p_tokenIn := Some ''RAY'', p_errorMessage := Some ''''\<rparr>))
       (initial\<lparr>db := [nil_uuid \<mapsto>
           (insertedRow nil_uuid ''SOL'' ''USDC'' 2 (1 / 100) 0)
             \<lparr>status := Failed, errorMessage := Some ''boom'', retryCount := 1\<rparr>]\<rparr>)) = Inr ()
   \<and> map_option errorMessage (db (snd (updateStatus nil_uuid Routing
       (Some (no_patch\<lparr>p_tokenIn := Some ''RAY'', p_errorMessage := Some ''''\<rparr>))
       (initial\<lparr>db := [nil_uuid \<mapsto>
           (insertedRow nil_uuid ''SOL'' ''USDC'' 2 (1 / 100) 0)
             \<lparr>status := Failed, errorMessage := Some ''boom'', retryCount := 1\<rparr>]\<rparr>))) nil_uuid)
     = Some (Some ''boom'')
   \<and> map_option tokenIn (db (snd (updateStatus nil_uuid Routing
       (Some (no_patch\<lparr>p_tokenIn := Some ''RAY'', p_errorMessage := Some ''''\<rparr>))
       (initial\<lparr>db := [nil_uuid \<mapsto>
           (insertedRow nil_uuid ''SOL'' ''USDC'' 2 (1 / 100) 0)
             \<lparr>status := Failed, errorMessage := Some ''boom'', retryCount := 1\<rparr>]\<rparr>))) nil_uuid)
     = Some ''SOL''
   \<and> map_option status (db (snd (updateStatus nil_uuid Routing
       (Some (no_patch\<lparr>p_tokenIn := Some ''RAY'', p_errorMessage := Some ''''\<rparr>))
       (initial\<lparr>db := [nil_uuid \<mapsto>
           (insertedRow nil_uuid ''SOL'' ''USDC'' 2 (1 / 100) 0)
             \<lparr>status := Failed, errorMessage := Some ''boom'', retryCount := 1\<rparr>]\<rparr>))) nil_uuid)
     = Some Routing"
proof -
  have r: "fst (updateStatus nil_uuid Routing
       (Some (no_patch\<lparr>p_tokenIn := Some ''RAY'', p_errorMessage := Some ''''\<rparr>))
       (initial\<lparr>db := [nil_uuid \<mapsto>
           (insertedRow nil_uuid ''SOL'' ''USDC'' 2 (1 / 100) 0)
             \<lparr>status := Failed, errorMessage := Some ''boom'', retryCount := 1\<rparr>]\<rparr>)) = Inr ()"
    using nil_uuid_shape
    by (simp add: updateStatus_returns_iff rejected_updates no_patch_def text_fits_def)
  show ?thesis
    using updateStatus_frame[of
          "initial\<lparr>db := [nil_uuid \<mapsto>
             (insertedRow nil_uuid ''SOL'' ''USDC'' 2 (1 / 100) 0)
               \<lparr>status := Failed, errorMessage := Some ''boom'', retryCount := 1\<rparr>]\<rparr>"
          nil_uuid
          "(insertedRow nil_uuid ''SOL'' ''USDC'' 2 (1 / 100) 0)
               \<lparr>status := Failed, errorMessage := Some ''boom'', retryCount := 1\<rparr>"
          Routing
          "Some (no_patch\<lparr>p_tokenIn := Some ''RAY'', p_errorMessage := Some ''''\<rparr>)"] r
    by (auto simp add: initial_def no_patch_def insertedRow_def)
qed


section \<open>Properties of the submission route\<close>

lemma string_property:
  "(truthy v \<and> typeof v = TString) = (\<exists>t. v = JString t \<and> t \<noteq> [])"
  by (cases v) simp_all

lemma amount_property:
  "(truthy v \<and> typeof v = TNumber \<and> \<not> numberOf v \<le> 0) = (\<exists>a. v = JNumber a \<and> 0 < a)"
  by (cases v) auto

lemma slippage_property:
  "(v \<noteq> JUndefined \<and> typeof v = TNumber \<and> \<not> numberOf v < 0 \<and> \<not> numberOf v > 1)
     = (\<exists>x. v = JNumber x \<and> 0 \<le> x \<and> x \<le> 1)"
  by (cases v) auto

lemma validateOrderRequest_Props:
  "\<exists>v. validateOrderRequest (Props b) = Inr v \<and> (valid v \<longrightarrow> error v = None)
       \<and> (\<not> valid v \<longrightarrow> (\<exists>msg. error v = Some msg))"
  by (simp add: validateOrderRequest_def)

lemma validateOrderRequest_valid_iff:
  assumes "validateOrderRequest (Props b) = Inr v"
  shows "valid v =
     (\<exists>ti to a x. b_tokenIn b = JString ti \<and> ti \<noteq> [] \<and> b_tokenOut b = JString to \<and> to \<noteq> []
        \<and> b_amount b = JNumber a \<and> 0 < a \<and> b_slippage b = JNumber x \<and> 0 \<le> x \<and> x \<le> 1
        \<and> ti \<noteq> to)"
proof -
  have "valid v =
          ((truthy (b_tokenIn b) \<and> typeof (b_tokenIn b) = TString)
           \<and> (truthy (b_tokenOut b) \<and> typeof (b_tokenOut b) = TString)
           \<and> (truthy (b_amount b) \<and> typeof (b_amount b) = TNumber \<and> \<not> numberOf (b_amount b) \<le> 0)
           \<and> (b_slippage b \<noteq> JUndefined \<and> typeof (b_slippage b) = TNumber
                \<and> \<not> numberOf (b_slippage b) < 0 \<and> \<not> numberOf (b_slippage b) > 1)
           \<and> b_tokenIn b \<noteq> b_tokenOut b)"
    unfolding sum.inject(2)[THEN iffD1, OF assms[unfolded validateOrderRequest_def
          RequestBody.case], symmetric]
    by auto
  then show ?thesis
    unfolding string_property amount_property slippage_property by auto
qed

text \<open>
  The insert of \<^verbatim>\<open>create\<close> is accepted exactly under the conditions of its columns.
\<close>

lemma create_accepted:
  assumes "uuidRegex_test newId" "db s newId = None" "text_fits ti" "text_fits to"
    "varchar_fits 50 ti" "varchar_fits 50 to" "decimal_fits 20 8 a" "decimal_fits 5 4 x"
  shows "create newId ti to a x s =
    (Inr (insertedRow newId (take 50 ti) (take 50 to) (round_to 8 a) (round_to 4 x) (clock s)),
     s\<lparr>statements := statements s @ [INSERT (insertedRow newId ti to a x (clock s))],
       db := (db s)(newId \<mapsto> insertedRow newId (take 50 ti) (take 50 to) (round_to 8 a)
                                 (round_to 4 x) (clock s)),
       written := written s @ [(newId, Pending)],
       cache := (cache s)(cacheKey newId \<mapsto>
                  insertedRow newId (take 50 ti) (take 50 to) (round_to 8 a) (round_to 4 x)
                    (clock s))\<rparr>)"
  using assms by (simp add: create_def Let_def)

lemma create_refused:
  assumes "\<not> (uuidRegex_test newId \<and> db s newId = None \<and> text_fits ti \<and> text_fits to
              \<and> varchar_fits 50 ti \<and> varchar_fits 50 to \<and> decimal_fits 20 8 a
              \<and> decimal_fits 5 4 x)"
  shows "\<exists>e. create newId ti to a x s =
           (Inl e, s\<lparr>statements := statements s @ [INSERT (insertedRow newId ti to a x (clock s))]\<rparr>)"
  using assms by (auto simp add: create_def Let_def split: option.split)

lemma broadcastStatus_fields:
  "broadcasts (broadcastStatus u s) = broadcasts s @ [u]"
  "statements (broadcastStatus u s) = statements s"
  "written (broadcastStatus u s) = written s"
  "db (broadcastStatus u s) = db s"
  "cache (broadcastStatus u s) = cache s"
  "queue (broadcastStatus u s) = queue s"
  "clock (broadcastStatus u s) = clock s"
  "connections (broadcastStatus u s) =
     (case connections s (su_orderId u) of None \<Rightarrow> connections s
      | Some wss \<Rightarrow> (connections s)(su_orderId u \<mapsto> map (deliver u) wss))"
  by (auto simp add: broadcastStatus_def Let_def deliver_def fun_eq_iff split: option.split)

lemma registerConnection_fields:
  "broadcasts (registerConnection i ws s) = broadcasts s"
  "statements (registerConnection i ws s) = statements s"
  "written (registerConnection i ws s) = written s"
  "db (registerConnection i ws s) = db s"
  "cache (registerConnection i ws s) = cache s"
  "queue (registerConnection i ws s) = queue s"
  "clock (registerConnection i ws s) = clock s"
  by (simp_all add: registerConnection_def Let_def)

lemma addOrderToQueue_fields:
  "broadcasts (addOrderToQueue i s) = broadcasts s"
  "statements (addOrderToQueue i s) = statements s"
  "written (addOrderToQueue i s) = written s"
  "db (addOrderToQueue i s) = db s"
  "cache (addOrderToQueue i s) = cache s"
  "connections (addOrderToQueue i s) = connections s"
  "clock (addOrderToQueue i s) = clock s"
  "queue (addOrderToQueue i s) = (if i \<in> set (queue s) then queue s else queue s @ [i])"
  by (simp_all add: addOrderToQueue_def)

text \<open>
  The four outcomes of \<^verbatim>\<open>executeOrder\<close>: the validation throws, the request is invalid,
  the insert is accepted, the insert is refused.
\<close>

lemma executeOrder_thrown:
  "body req = NoBody \<Longrightarrow> executeOrder req newId s = (Inl (cannotRead ''undefined''), s)"
  "body req = NullBody \<Longrightarrow> executeOrder req newId s = (Inl (cannotRead ''null''), s)"
  by (simp_all add: executeOrder_def validateOrderRequest_def)

lemma executeOrder_invalid:
  assumes "body req = Props b" "validateOrderRequest (Props b) = Inr v" "\<not> valid v"
  shows "executeOrder req newId s = (Inr (Reply 400 (ErrorBody ''Invalid request'' (error v))), s)"
  using assms by (simp add: executeOrder_def)

lemma executeOrder_valid:
  assumes "body req = Props b" "validateOrderRequest (Props b) = Inr v" "valid v"
  shows "executeOrder req newId s =
          (case create newId (stringOf (b_tokenIn b)) (stringOf (b_tokenOut b))
                     (numberOf (b_amount b)) (numberOf (b_slippage b)) s of
             (Inl err, s1) \<Rightarrow>
               (Inr (Reply 500 (ErrorBody ''Internal server error''
                                  (Some ''Failed to create order''))), s1)
           | (Inr order, s1) \<Rightarrow>
               if upgrade req = Some ''websocket''
               then
                 (Inr Hijacked,
                  addOrderToQueue (order_id order)
                    (broadcastStatus
                             \<lparr>su_orderId = order_id order, su_status = Pending,
                              su_timestamp = clock (registerConnection (order_id order) (socket req) s1),
                              su_data = Some (PendingData (tokenIn order) (tokenOut order)
                                                (amount order) (slippage order))\<rparr>
                        (registerConnection (order_id order) (socket req) s1)))
               else
                 (Inr (Reply 201
                    (CreatedBody (order_id order) (status order)
                       ''Order created successfully. Connect via WebSocket for real-time updates.''
                       (''/api/orders/execute?orderId='' @ order_id order))),
                  addOrderToQueue (order_id order) s1))"
  using assms by (simp add: executeOrder_def Let_def split: prod.split sum.split)

lemma executeOrder_created:
  assumes b: "body req = Props b"
    and f: "b_tokenIn b = JString ti" "b_tokenOut b = JString to" "b_amount b = JNumber a"
           "b_slippage b = JNumber x"
    and v: "ti \<noteq> []" "to \<noteq> []" "ti \<noteq> to" "0 < a" "0 \<le> x" "x \<le> 1"
    and ok: "uuidRegex_test newId" "db s newId = None" "text_fits ti" "text_fits to"
            "varchar_fits 50 ti" "varchar_fits 50 to" "decimal_fits 20 8 a"
  shows "fst (executeOrder req newId s) =
           Inr (if upgrade req = Some ''websocket'' then Hijacked
                else Reply 201 (CreatedBody newId Pending
                  ''Order created successfully. Connect via WebSocket for real-time updates.''
                  (''/api/orders/execute?orderId='' @ newId)))"
    and "db (snd (executeOrder req newId s)) =
           (db s)(newId \<mapsto> insertedRow newId (take 50 ti) (take 50 to) (round_to 8 a)
                               (round_to 4 x) (clock s))"
    and "cache (snd (executeOrder req newId s)) =
           (cache s)(cacheKey newId \<mapsto> insertedRow newId (take 50 ti) (take 50 to)
                               (round_to 8 a) (round_to 4 x) (clock s))"
    and "written (snd (executeOrder req newId s)) = written s @ [(newId, Pending)]"
    and "statements (snd (executeOrder req newId s)) =
           statements s @ [INSERT (insertedRow newId ti to a x (clock s))]"
    and "queue (snd (executeOrder req newId s)) =
           (if newId \<in> set (queue s) then queue s else queue s @ [newId])"
    and "clock (snd (executeOrder req newId s)) = clock s"
    and "broadcasts (snd (executeOrder req newId s)) =
           broadcasts s @ (if upgrade req = Some ''websocket''
              then [\<lparr>su_orderId = newId, su_status = Pending, su_timestamp = clock s,
                     su_data = Some (PendingData (take 50 ti) (take 50 to) (round_to 8 a)
                                       (round_to 4 x))\<rparr>]
              else [])"
proof -
  obtain v where vv: "validateOrderRequest (Props b) = Inr v"
    using validateOrderRequest_Props by blast
  have "valid v" unfolding validateOrderRequest_valid_iff[OF vv] using f v by simp
  note e = executeOrder_valid[OF b vv this, of newId s]
  have c: "create newId (stringOf (b_tokenIn b)) (stringOf (b_tokenOut b))
                     (numberOf (b_amount b)) (numberOf (b_slippage b)) s
        = (Inr (insertedRow newId (take 50 ti) (take 50 to) (round_to 8 a) (round_to 4 x) (clock s)),
     s\<lparr>statements := statements s @ [INSERT (insertedRow newId ti to a x (clock s))],
       db := (db s)(newId \<mapsto> insertedRow newId (take 50 ti) (take 50 to) (round_to 8 a)
                                 (round_to 4 x) (clock s)),
       written := written s @ [(newId, Pending)],
       cache := (cache s)(cacheKey newId \<mapsto>
                  insertedRow newId (take 50 ti) (take 50 to) (round_to 8 a) (round_to 4 x)
                    (clock s))\<rparr>)"
    using create_accepted[OF ok slippage_fits[OF v(5,6)]] f by simp
  have r: "order_id (insertedRow newId t1 t2 a1 x1 n) = newId"
      "status (insertedRow newId t1 t2 a1 x1 n) = Pending"
      "tokenIn (insertedRow newId t1 t2 a1 x1 n) = t1"
      "tokenOut (insertedRow newId t1 t2 a1 x1 n) = t2"
      "amount (insertedRow newId t1 t2 a1 x1 n) = a1"
      "slippage (insertedRow newId t1 t2 a1 x1 n) = x1" for t1 t2 a1 x1 n
    by (simp_all add: insertedRow_def)
  show "fst (executeOrder req newId s) =
           Inr (if upgrade req = Some ''websocket'' then Hijacked
                else Reply 201 (CreatedBody newId Pending
                  ''Order created successfully. Connect via WebSocket for real-time updates.''
                  (''/api/orders/execute?orderId='' @ newId)))"
    unfolding e c by (simp add: r)
  show "db (snd (executeOrder req newId s)) =
           (db s)(newId \<mapsto> insertedRow newId (take 50 ti) (take 50 to) (round_to 8 a)
                               (round_to 4 x) (clock s))"
    unfolding e c
    by (simp add: r addOrderToQueue_fields broadcastStatus_fields registerConnection_fields)
  show "cache (snd (executeOrder req newId s)) =
           (cache s)(cacheKey newId \<mapsto> insertedRow newId (take 50 ti) (take 50 to)
                               (round_to 8 a) (round_to 4 x) (clock s))"
    unfolding e c
    by (simp add: r addOrderToQueue_fields broadcastStatus_fields registerConnection_fields)
  show "written (snd (executeOrder req newId s)) = written s @ [(newId, Pending)]"
    unfolding e c
    by (simp add: r addOrderToQueue_fields broadcastStatus_fields registerConnection_fields)
  show "statements (snd (executeOrder req newId s)) =
           statements s @ [INSERT (insertedRow newId ti to a x (clock s))]"
    unfolding e c
    by (simp add: r addOrderToQueue_fields broadcastStatus_fields registerConnection_fields)
  show "queue (snd (executeOrder req newId s)) =
           (if newId \<in> set (queue s) then queue s else queue s @ [newId])"
    unfolding e c
    by (simp add: r addOrderToQueue_fields broadcastStatus_fields registerConnection_fields)
  show "clock (snd (executeOrder req newId s)) = clock s"
    unfolding e c
    by (simp add: r addOrderToQueue_fields broadcastStatus_fields registerConnection_fields)
  show "broadcasts (snd (executeOrder req newId s)) =
           broadcasts s @ (if upgrade req = Some ''websocket''
              then [\<lparr>su_orderId = newId, su_status = Pending, su_timestamp = clock s,
                     su_data = Some (PendingData (take 50 ti) (take 50 to) (round_to 8 a)
                                       (round_to 4 x))\<rparr>]
              else [])"
    unfolding e c
    by (simp add: r addOrderToQueue_fields broadcastStatus_fields registerConnection_fields)
qed

lemma executeOrder_refused:
  assumes b: "body req = Props b"
    and f: "b_tokenIn b = JString ti" "b_tokenOut b = JString to" "b_amount b = JNumber a"
           "b_slippage b = JNumber x"
    and v: "ti \<noteq> []" "to \<noteq> []" "ti \<noteq> to" "0 < a" "0 \<le> x" "x \<le> 1"
    and no: "\<not> (uuidRegex_test newId \<and> db s newId = None \<and> text_fits ti \<and> text_fits to
              \<and> varchar_fits 50 ti \<and> varchar_fits 50 to \<and> decimal_fits 20 8 a)"
  shows "executeOrder req newId s =
           (Inr (Reply 500 (ErrorBody ''Internal server error'' (Some ''Failed to create order''))),
            s\<lparr>statements := statements s @ [INSERT (insertedRow newId ti to a x (clock s))]\<rparr>)"
proof -
  obtain v where vv: "validateOrderRequest (Props b) = Inr v"
    using validateOrderRequest_Props by blast
  have "valid v" unfolding validateOrderRequest_valid_iff[OF vv] using f v by simp
  note e = executeOrder_valid[OF b vv this, of newId s]
  obtain err where "create newId ti to a x s =
           (Inl err, s\<lparr>statements := statements s @ [INSERT (insertedRow newId ti to a x (clock s))]\<rparr>)"
    using create_refused[of newId s ti to a x] no by blast
  then show ?thesis unfolding e using f by simp
qed

lemma executeOrder_changes:
  assumes ch: "db (snd (executeOrder req newId s)) \<noteq> db s
        \<or> queue (snd (executeOrder req newId s)) \<noteq> queue s"
  shows "\<exists>b ti to a x. body req = Props b
           \<and> b_tokenIn b = JString ti \<and> b_tokenOut b = JString to
           \<and> b_amount b = JNumber a \<and> b_slippage b = JNumber x
           \<and> ti \<noteq> [] \<and> to \<noteq> [] \<and> ti \<noteq> to \<and> 0 < a \<and> 0 \<le> x \<and> x \<le> 1
           \<and> uuidRegex_test newId \<and> db s newId = None \<and> text_fits ti \<and> text_fits to
           \<and> varchar_fits 50 ti \<and> varchar_fits 50 to \<and> decimal_fits 20 8 a"
proof (cases "body req")
  case NoBody
  then show ?thesis using ch by (simp add: executeOrder_thrown)
next
  case NullBody
  then show ?thesis using ch by (simp add: executeOrder_thrown)
next
  case (Props b)
  obtain v where v: "validateOrderRequest (Props b) = Inr v"
    using validateOrderRequest_Props by blast
  show ?thesis
  proof (cases "valid v")
    case False
    then show ?thesis using ch executeOrder_invalid[OF Props v False, of newId s] by simp
  next
    case True
    then obtain ti to a x where f: "b_tokenIn b = JString ti" "b_tokenOut b = JString to"
        "b_amount b = JNumber a" "b_slippage b = JNumber x"
      and w: "ti \<noteq> []" "to \<noteq> []" "ti \<noteq> to" "0 < a" "0 \<le> x" "x \<le> 1"
      unfolding validateOrderRequest_valid_iff[OF v] by blast
    show ?thesis
    proof (cases "uuidRegex_test newId \<and> db s newId = None \<and> text_fits ti \<and> text_fits to
              \<and> varchar_fits 50 ti \<and> varchar_fits 50 to \<and> decimal_fits 20 8 a")
      case False
      then show ?thesis using ch executeOrder_refused[OF Props f w False] by simp
    next
      case True
      then show ?thesis using Props f w by blast
    qed
  qed
qed

lemma executeOrder_registers:
  assumes b: "body req = Props b"
    and f: "b_tokenIn b = JString ti" "b_tokenOut b = JString to" "b_amount b = JNumber a"
           "b_slippage b = JNumber x"
    and v: "ti \<noteq> []" "to \<noteq> []" "ti \<noteq> to" "0 < a" "0 \<le> x" "x \<le> 1"
    and ok: "uuidRegex_test newId" "db s newId = None" "text_fits ti" "text_fits to"
            "varchar_fits 50 ti" "varchar_fits 50 to" "decimal_fits 20 8 a"
    and up: "upgrade req = Some ''websocket''" and nocon: "connections s newId = None"
  shows "connections (snd (executeOrder req newId s)) newId =
           Some [deliver \<lparr>su_orderId = newId, su_status = Pending, su_timestamp = clock s,
                     su_data = Some (PendingData (take 50 ti) (take 50 to) (round_to 8 a)
                                       (round_to 4 x))\<rparr> (socket req)]"
proof -
  obtain v' where vv: "validateOrderRequest (Props b) = Inr v'"
    using validateOrderRequest_Props by blast
  have "valid v'" unfolding validateOrderRequest_valid_iff[OF vv] using f v by simp
  note e = executeOrder_valid[OF b vv this, of newId s]
  have r: "order_id (insertedRow newId t1 t2 a1 x1 n) = newId"
      "tokenIn (insertedRow newId t1 t2 a1 x1 n) = t1"
      "tokenOut (insertedRow newId t1 t2 a1 x1 n) = t2"
      "amount (insertedRow newId t1 t2 a1 x1 n) = a1"
      "slippage (insertedRow newId t1 t2 a1 x1 n) = x1" for t1 t2 a1 x1 n
    by (simp_all add: insertedRow_def)
  show ?thesis
    unfolding e using f up nocon
    by (simp add: create_accepted[OF ok slippage_fits[OF v(5,6)]] r addOrderToQueue_fields
          broadcastStatus_fields registerConnection_fields registerConnection_def)
qed

lemma submission_fields:
  "body (submission ti to a x up) =
     Props \<lparr>b_tokenIn = JString ti, b_tokenOut = JString to, b_amount = JNumber a,
            b_slippage = JNumber x\<rparr>"
  "upgrade (submission ti to a x up) = up"
  "socket (submission ti to a x up) = \<lparr>ws_id = 0, readyState = OPEN, received = []\<rparr>"
  by (simp_all add: submission_def)

lemma initial_fields:
  "db initial = Map.empty" "cache initial = Map.empty" "connections initial = Map.empty"
  "statements initial = []" "written initial = []" "broadcasts initial = []"
  "queue initial = []" "clock initial = 0"
  by (simp_all add: initial_def)

text \<open>
  C2, as the claim states it, fails at the slippage 1: the route rejects a slippage below 0
  or above 1 (\<^verbatim>\<open>body.slippage < 0 || body.slippage > 1\<close>, with the message "must be between 0
  and 1"), so a request with the slippage 1 is valid, and its order is created pending and
  enqueued.
\<close>

theorem executeOrder_accepts_slippage_one:
  "validateOrderRequest (body (submission ''SOL'' ''USDC'' (3 / 2) 1 None))
     = Inr \<lparr>valid = True, error = None\<rparr>
   \<and> db (snd (executeOrder (submission ''SOL'' ''USDC'' (3 / 2) 1 None) nil_uuid initial))
       = [nil_uuid \<mapsto> insertedRow nil_uuid ''SOL'' ''USDC'' (3 / 2) 1 0]
   \<and> status (insertedRow nil_uuid ''SOL'' ''USDC'' (3 / 2) 1 0) = Pending
   \<and> queue (snd (executeOrder (submission ''SOL'' ''USDC'' (3 / 2) 1 None) nil_uuid initial))
       = [nil_uuid]"
proof -
  have v: "validateOrderRequest (body (submission ''SOL'' ''USDC'' (3 / 2) 1 None))
     = Inr \<lparr>valid = True, error = None\<rparr>"
    by (simp add: validateOrderRequest_def submission_fields)
  have "db (snd (executeOrder (submission ''SOL'' ''USDC'' (3 / 2) 1 None) nil_uuid initial))
       = [nil_uuid \<mapsto> insertedRow nil_uuid ''SOL'' ''USDC'' (3 / 2) 1 0]"
    using nil_uuid_shape
    by (subst executeOrder_created(2)[where ti = "''SOL''" and to = "''USDC''" and a = "3 / 2"
          and x = 1, OF submission_fields(1)])
      (simp_all add: sample_fits initial_fields)
  moreover
  have "queue (snd (executeOrder (submission ''SOL'' ''USDC'' (3 / 2) 1 None) nil_uuid initial))
       = [nil_uuid]"
    using nil_uuid_shape
    by (subst executeOrder_created(6)[where ti = "''SOL''" and to = "''USDC''" and a = "3 / 2"
          and x = 1, OF submission_fields(1)])
      (simp_all add: sample_fits initial_fields)
  ultimately show ?thesis using v by (simp add: insertedRow_def)
qed

text \<open>
  C2, amended. A request whose body is absent or \<^verbatim>\<open>null\<close> makes the validation throw
  before anything is created: the route sends no reply of its own and the state stays as it
  was. A request whose body has properties is valid exactly when its two tokens are
  non-empty strings that differ, its amount is a number above 0 and its slippage is a number
  from 0 to 1, both included; an invalid one is answered with the status 400 and a
  validation message and leaves the whole state as it was. A valid request creates the row
  of a pending order and enqueues its id when the database accepts the insert: the new id is
  a UUID text that is not in the table, no token holds the character of code 0 or is longer
  than the 50 characters of its column, and the amount fits \<^verbatim>\<open>DECIMAL(20, 8)\<close>; the row
  holds the amount rounded to 8 decimals and the slippage rounded to 4. When the database
  refuses the insert, the request is answered with the status 500 and the table, the cache
  and the queue stay as they were. So a row or a job is added only for a valid request.
\<close>

theorem executeOrder_validation:
  "(body req = NoBody \<longrightarrow> executeOrder req newId s = (Inl (cannotRead ''undefined''), s))
   \<and> (body req = NullBody \<longrightarrow> executeOrder req newId s = (Inl (cannotRead ''null''), s))
   \<and> (body req = Props b \<longrightarrow>
        (if \<exists>ti to a x. b_tokenIn b = JString ti \<and> ti \<noteq> [] \<and> b_tokenOut b = JString to
               \<and> to \<noteq> [] \<and> b_amount b = JNumber a \<and> 0 < a
               \<and> b_slippage b = JNumber x \<and> 0 \<le> x \<and> x \<le> 1 \<and> ti \<noteq> to
         then validateOrderRequest (body req) = Inr \<lparr>valid = True, error = None\<rparr>
         else \<exists>msg. validateOrderRequest (body req) = Inr \<lparr>valid = False, error = Some msg\<rparr>
                \<and> executeOrder req newId s
                    = (Inr (Reply 400 (ErrorBody ''Invalid request'' (Some msg))), s)))
   \<and> (body req = Props b \<and> b_tokenIn b = JString ti \<and> ti \<noteq> [] \<and> b_tokenOut b = JString to
          \<and> to \<noteq> [] \<and> b_amount b = JNumber a \<and> 0 < a
          \<and> b_slippage b = JNumber x \<and> 0 \<le> x \<and> x \<le> 1 \<and> ti \<noteq> to \<longrightarrow>
        (if uuidRegex_test newId \<and> db s newId = None \<and> text_fits ti \<and> text_fits to
              \<and> varchar_fits 50 ti \<and> varchar_fits 50 to \<and> decimal_fits 20 8 a
         then fst (executeOrder req newId s)
                = Inr (if upgrade req = Some ''websocket'' then Hijacked
                       else Reply 201 (CreatedBody newId Pending
                  ''Order created successfully. Connect via WebSocket for real-time updates.''
                  (''/api/orders/execute?orderId='' @ newId)))
              \<and> db (snd (executeOrder req newId s))
                  = (db s)(newId \<mapsto> insertedRow newId (take 50 ti) (take 50 to) (round_to 8 a)
                                       (round_to 4 x) (clock s))
              \<and> status (insertedRow newId (take 50 ti) (take 50 to) (round_to 8 a)
                                       (round_to 4 x) (clock s)) = Pending
              \<and> queue (snd (executeOrder req newId s))
                  = (if newId \<in> set (queue s) then queue s else queue s @ [newId])
         else fst (executeOrder req newId s)
                = Inr (Reply 500 (ErrorBody ''Internal server error''
                                    (Some ''Failed to create order'')))
              \<and> db (snd (executeOrder req newId s)) = db s
              \<and> cache (snd (executeOrder req newId s)) = cache s
              \<and> queue (snd (executeOrder req newId s)) = queue s))
   \<and> (db (snd (executeOrder req newId s)) \<noteq> db s
        \<or> queue (snd (executeOrder req newId s)) \<noteq> queue s \<longrightarrow>
        (\<exists>ti to a x. body req = Props \<lparr>b_tokenIn = JString ti, b_tokenOut = JString to,
                                         b_amount = JNumber a, b_slippage = JNumber x\<rparr>
           \<and> ti \<noteq> [] \<and> to \<noteq> [] \<and> ti \<noteq> to \<and> 0 < a \<and> 0 \<le> x \<and> x \<le> 1))"
proof -
  have checked: "if \<exists>ti to a x. b_tokenIn b = JString ti \<and> ti \<noteq> [] \<and> b_tokenOut b = JString to
               \<and> to \<noteq> [] \<and> b_amount b = JNumber a \<and> 0 < a
               \<and> b_slippage b = JNumber x \<and> 0 \<le> x \<and> x \<le> 1 \<and> ti \<noteq> to
         then validateOrderRequest (body req) = Inr \<lparr>valid = True, error = None\<rparr>
         else \<exists>msg. validateOrderRequest (body req) = Inr \<lparr>valid = False, error = Some msg\<rparr>
                \<and> executeOrder req newId s
                    = (Inr (Reply 400 (ErrorBody ''Invalid request'' (Some msg))), s)"
    if b: "body req = Props b" for b
  proof -
    obtain v where v: "validateOrderRequest (Props b) = Inr v"
      "valid v \<longrightarrow> error v = None" "\<not> valid v \<longrightarrow> (\<exists>msg. error v = Some msg)"
      using validateOrderRequest_Props by blast
    show ?thesis
    proof (cases "valid v")
      case True
      then have "v = \<lparr>valid = True, error = None\<rparr>" using v(2) by simp
      with True show ?thesis using validateOrderRequest_valid_iff[OF v(1)] v(1) b by simp
    next
      case False
      then obtain msg where "error v = Some msg" using v(3) by blast
      with False have "v = \<lparr>valid = False, error = Some msg\<rparr>" by simp
      with False show ?thesis
        using validateOrderRequest_valid_iff[OF v(1)] v(1) b
          executeOrder_invalid[OF b v(1) False, of newId s]
        by simp
    qed
  qed
  have valid: "if uuidRegex_test newId \<and> db s newId = None \<and> text_fits ti \<and> text_fits to
              \<and> varchar_fits 50 ti \<and> varchar_fits 50 to \<and> decimal_fits 20 8 a
         then fst (executeOrder req newId s)
                = Inr (if upgrade req = Some ''websocket'' then Hijacked
                       else Reply 201 (CreatedBody newId Pending
                  ''Order created successfully. Connect via WebSocket for real-time updates.''
                  (''/api/orders/execute?orderId='' @ newId)))
              \<and> db (snd (executeOrder req newId s))
                  = (db s)(newId \<mapsto> insertedRow newId (take 50 ti) (take 50 to) (round_to 8 a)
                                       (round_to 4 x) (clock s))
              \<and> status (insertedRow newId (take 50 ti) (take 50 to) (round_to 8 a)
                                       (round_to 4 x) (clock s)) = Pending
              \<and> queue (snd (executeOrder req newId s))
                  = (if newId \<in> set (queue s) then queue s else queue s @ [newId])
         else fst (executeOrder req newId s)
                = Inr (Reply 500 (ErrorBody ''Internal server error''
                                    (Some ''Failed to create order'')))
              \<and> db (snd (executeOrder req newId s)) = db s
              \<and> cache (snd (executeOrder req newId s)) = cache s
              \<and> queue (snd (executeOrder req newId s)) = queue s"
    if h: "body req = Props b \<and> b_tokenIn b = JString ti \<and> ti \<noteq> [] \<and> b_tokenOut b = JString to
          \<and> to \<noteq> [] \<and> b_amount b = JNumber a \<and> 0 < a
          \<and> b_slippage b = JNumber x \<and> 0 \<le> x \<and> x \<le> 1 \<and> ti \<noteq> to"
  proof (cases "uuidRegex_test newId \<and> db s newId = None \<and> text_fits ti \<and> text_fits to
              \<and> varchar_fits 50 ti \<and> varchar_fits 50 to \<and> decimal_fits 20 8 a")
    case True
    have b: "body req = Props b" and f: "b_tokenIn b = JString ti" "b_tokenOut b = JString to"
      "b_amount b = JNumber a" "b_slippage b = JNumber x"
      and v: "ti \<noteq> []" "to \<noteq> []" "ti \<noteq> to" "0 < a" "0 \<le> x" "x \<le> 1"
      using h by simp_all
    have ok: "uuidRegex_test newId" "db s newId = None" "text_fits ti" "text_fits to"
            "varchar_fits 50 ti" "varchar_fits 50 to" "decimal_fits 20 8 a"
      using True by simp_all
    note c = executeOrder_created[OF b f v ok]
    show ?thesis using True by (simp only: c if_True) (simp add: insertedRow_def)
  next
    case False
    have b: "body req = Props b" and f: "b_tokenIn b = JString ti" "b_tokenOut b = JString to"
      "b_amount b = JNumber a" "b_slippage b = JNumber x"
      and v: "ti \<noteq> []" "to \<noteq> []" "ti \<noteq> to" "0 < a" "0 \<le> x" "x \<le> 1"
      using h by simp_all
    show ?thesis using False by (simp only: executeOrder_refused[OF b f v False] if_False) simp
  qed
  have only: "\<exists>ti to a x. body req = Props \<lparr>b_tokenIn = JString ti, b_tokenOut = JString to,
                                         b_amount = JNumber a, b_slippage = JNumber x\<rparr>
           \<and> ti \<noteq> [] \<and> to \<noteq> [] \<and> ti \<noteq> to \<and> 0 < a \<and> 0 \<le> x \<and> x \<le> 1"
    if ch: "db (snd (executeOrder req newId s)) \<noteq> db s
        \<or> queue (snd (executeOrder req newId s)) \<noteq> queue s"
  proof (cases "body req")
    case NoBody
    then show ?thesis using ch by (simp add: executeOrder_thrown)
  next
    case NullBody
    then show ?thesis using ch by (simp add: executeOrder_thrown)
  next
    case (Props b')
    show ?thesis
    proof (cases "\<exists>ti to a x. b_tokenIn b' = JString ti \<and> ti \<noteq> [] \<and> b_tokenOut b' = JString to
               \<and> to \<noteq> [] \<and> b_amount b' = JNumber a \<and> 0 < a
               \<and> b_slippage b' = JNumber x \<and> 0 \<le> x \<and> x \<le> 1 \<and> ti \<noteq> to")
      case True
      then obtain ti to a x where "b_tokenIn b' = JString ti" "ti \<noteq> []"
        "b_tokenOut b' = JString to"
        "to \<noteq> []" "b_amount b' = JNumber a" "0 < a" "b_slippage b' = JNumber x" "0 \<le> x" "x \<le> 1"
        "ti \<noteq> to" by blast
      then show ?thesis using Props
        by (intro exI[of _ ti] exI[of _ to] exI[of _ a] exI[of _ x]) simp
    next
      case False
      then have "\<exists>msg. executeOrder req newId s
                    = (Inr (Reply 400 (ErrorBody ''Invalid request'' (Some msg))), s)"
        using checked[OF Props] by (simp only: if_False) blast
      then have "snd (executeOrder req newId s) = s" by auto
      then show ?thesis using ch by simp
    qed
  qed
  show ?thesis using executeOrder_thrown[of req newId s] checked[of b] valid only by blast
qed

theorem executeOrder_validation_witness:
  "executeOrder \<lparr>body = NullBody, upgrade = None,
                 socket = \<lparr>ws_id = 0, readyState = OPEN, received = []\<rparr>\<rparr> nil_uuid initial
     = (Inl (cannotRead ''null''), initial)
   \<and> executeOrder (submission ''SOL'' ''SOL'' (3 / 2) (1 / 100) None) nil_uuid initial
       = (Inr (Reply 400 (ErrorBody ''Invalid request''
                       (Some ''tokenIn and tokenOut must be different''))), initial)
   \<and> db (snd (executeOrder (submission ''SOL'' ''USDC'' (3 / 2) (1 / 100) None) nil_uuid initial))
       = [nil_uuid \<mapsto> insertedRow nil_uuid ''SOL'' ''USDC'' (3 / 2) (1 / 100) 0]
   \<and> queue (snd (executeOrder (submission ''SOL'' ''USDC'' (3 / 2) (1 / 100) None) nil_uuid
                     initial)) = [nil_uuid]
   \<and> \<not> decimal_fits 20 8 (10 ^ 13)
   \<and> fst (executeOrder (submission ''SOL'' ''USDC'' (10 ^ 13) (1 / 100) None) nil_uuid initial)
       = Inr (Reply 500 (ErrorBody ''Internal server error'' (Some ''Failed to create order'')))
   \<and> db (snd (executeOrder (submission ''SOL'' ''USDC'' (10 ^ 13) (1 / 100) None) nil_uuid
                  initial)) = Map.empty"
proof -
  have big: "\<not> decimal_fits 20 8 (10 ^ 13)"
    by (simp add: decimal_fits_def round_to_def)
  have c1: "executeOrder \<lparr>body = NullBody, upgrade = None,
                 socket = \<lparr>ws_id = 0, readyState = OPEN, received = []\<rparr>\<rparr> nil_uuid initial
     = (Inl (cannotRead ''null''), initial)"
    using executeOrder_validation[where req = "\<lparr>body = NullBody, upgrade = None,
                      socket = \<lparr>ws_id = 0, readyState = OPEN, received = []\<rparr>\<rparr>"
            and newId = nil_uuid and s = initial]
    by simp
  have c2: "executeOrder (submission ''SOL'' ''SOL'' (3 / 2) (1 / 100) None) nil_uuid initial
       = (Inr (Reply 400 (ErrorBody ''Invalid request''
                       (Some ''tokenIn and tokenOut must be different''))), initial)"
    using executeOrder_validation[where req = "submission ''SOL'' ''SOL'' (3 / 2) (1 / 100) None"
            and newId = nil_uuid and s = initial
            and b = "\<lparr>b_tokenIn = JString ''SOL'', b_tokenOut = JString ''SOL'',
                      b_amount = JNumber (3 / 2), b_slippage = JNumber (1 / 100)\<rparr>"]
    by (simp add: submission_fields validateOrderRequest_def)
  have c3: "db (snd (executeOrder (submission ''SOL'' ''USDC'' (3 / 2) (1 / 100) None) nil_uuid
                       initial))
       = [nil_uuid \<mapsto> insertedRow nil_uuid ''SOL'' ''USDC'' (3 / 2) (1 / 100) 0]
   \<and> queue (snd (executeOrder (submission ''SOL'' ''USDC'' (3 / 2) (1 / 100) None) nil_uuid
                     initial)) = [nil_uuid]"
    using executeOrder_validation[where req = "submission ''SOL'' ''USDC'' (3 / 2) (1 / 100) None"
            and newId = nil_uuid and s = initial
            and b = "\<lparr>b_tokenIn = JString ''SOL'', b_tokenOut = JString ''USDC'',
                      b_amount = JNumber (3 / 2), b_slippage = JNumber (1 / 100)\<rparr>"
            and ti = "''SOL''" and to = "''USDC''" and a = "3 / 2" and x = "1 / 100"]
      nil_uuid_shape
    by (simp add: submission_fields initial_fields sample_fits)
  have c4: "fst (executeOrder (submission ''SOL'' ''USDC'' (10 ^ 13) (1 / 100) None) nil_uuid
                   initial)
       = Inr (Reply 500 (ErrorBody ''Internal server error'' (Some ''Failed to create order'')))
   \<and> db (snd (executeOrder (submission ''SOL'' ''USDC'' (10 ^ 13) (1 / 100) None) nil_uuid
                  initial)) = Map.empty"
    using executeOrder_validation[where req = "submission ''SOL'' ''USDC'' (10 ^ 13) (1 / 100) None"
            and newId = nil_uuid and s = initial
            and b = "\<lparr>b_tokenIn = JString ''SOL'', b_tokenOut = JString ''USDC'',
                      b_amount = JNumber (10 ^ 13), b_slippage = JNumber (1 / 100)\<rparr>"
            and ti = "''SOL''" and to = "''USDC''" and a = "10 ^ 13" and x = "1 / 100"]
      big
    by (simp add: submission_fields initial_fields)
  show ?thesis using c1 c2 c3 c4 big by simp
qed


section \<open>Properties of the worker\<close>

text \<open>
  What one update does to the fields of the state, whether it returns or throws.
\<close>

lemma case_updateStatus:
  "(case updateStatus i st p s of (Inl err, s1) \<Rightarrow> f err s1 | (Inr u, s1) \<Rightarrow> g u s1)
     = (case fst (updateStatus i st p s) of
          Inl err \<Rightarrow> f err (snd (updateStatus i st p s))
        | Inr u \<Rightarrow> g u (snd (updateStatus i st p s)))"
  by (simp split: prod.split sum.split)

lemma updateStatus_written:
  "written (snd (updateStatus i st p s)) =
     written s @ (if uuidRegex_test i \<and> List.map_filter reject (updates st p) = []
                     \<and> db s i \<noteq> None
                  then [(i, st)] else [])"
  by (auto simp add: updateStatus_def Let_def split: list.split option.split)

lemma updateStatus_cache:
  "cache (snd (updateStatus i st p s)) =
     (if uuidRegex_test i \<and> List.map_filter reject (updates st p) = []
      then (cache s)(cacheKey i := None) else cache s)"
  by (auto simp add: updateStatus_def Let_def split: list.split option.split)

lemma updateStatus_db:
  "db (snd (updateStatus i st p s)) =
     (if uuidRegex_test i \<and> List.map_filter reject (updates st p) = []
      then (case db s i of None \<Rightarrow> db s
            | Some row \<Rightarrow> (db s)(i \<mapsto> fold (assign (clock s)) (updates st p) row))
      else db s)"
  by (auto simp add: updateStatus_def Let_def split: list.split option.split)

lemma updateStatus_db_None:
  "(db (snd (updateStatus i st p s)) j = None) = (db s j = None)"
  by (simp add: updateStatus_db split: option.split)

lemma updateStatus_db_status:
  "map_option status (db (snd (updateStatus i st p s)) i) =
     (if uuidRegex_test i \<and> List.map_filter reject (updates st p) = []
      then map_option (\<lambda>row. st) (db s i) else map_option status (db s i))"
  by (simp add: updateStatus_db status_fold_updates split: option.split)

lemma updateStatus_db_kept:
  "map_option (\<lambda>row. c) (db (snd (updateStatus i st p s)) i) = map_option (\<lambda>row. c) (db s i)"
  by (simp add: updateStatus_db split: option.split)

lemma updateStatus_db_frame:
  "map_option tokenIn (db (snd (updateStatus i st p s)) j) = map_option tokenIn (db s j)"
  "map_option tokenOut (db (snd (updateStatus i st p s)) j) = map_option tokenOut (db s j)"
  "map_option amount (db (snd (updateStatus i st p s)) j) = map_option amount (db s j)"
  "map_option slippage (db (snd (updateStatus i st p s)) j) = map_option slippage (db s j)"
  by (simp_all add: updateStatus_db fold_assign_updates split: option.split)

lemma updateStatus_error:
  "fst (updateStatus i st p s) =
     (if \<not> uuidRegex_test i then Inl (Error ''invalid input syntax for type uuid'')
      else case List.map_filter reject (updates st p) of [] \<Rightarrow> Inr () | e # es \<Rightarrow> Inl e)"
  by (simp add: updateStatus_def Let_def split: list.split)

lemma rejected_plain [simp]: "List.map_filter reject (updates st None) = []"
  by (simp add: rejected_updates)

lemma rejected_building [simp]:
  "List.map_filter reject (updates st (Some (no_patch\<lparr>p_selectedDex := Some x,
      p_raydiumQuote := Some y, p_meteoraQuote := Some z\<rparr>))) = []"
  by (simp add: rejected_updates no_patch_def)

lemma rejected_failed:
  "List.map_filter reject (updates st (Some (no_patch\<lparr>p_errorMessage := Some m,
      p_retryCount := Some n\<rparr>)))
     = (if text_fits m then [] else [Error ''invalid byte sequence for encoding UTF8: 0x00''])"
  by (simp add: rejected_updates no_patch_def)

lemma rejected_confirmed:
  "List.map_filter reject (updates st (Some (no_patch\<lparr>p_executedPrice := Some x,
      p_amountOut := Some y, p_txHash := Some h\<rparr>)))
     = (if decimal_fits 20 8 x then [] else [Error ''numeric field overflow''])
       @ (if decimal_fits 20 8 y then [] else [Error ''numeric field overflow''])
       @ (if \<not> text_fits h then [Error ''invalid byte sequence for encoding UTF8: 0x00'']
          else if varchar_fits 100 h then []
          else [Error ''value too long for type character varying(100)''])"
  by (simp add: rejected_updates no_patch_def)

lemma updates_failed:
  "m \<noteq> [] \<Longrightarrow>
   updates Failed (Some (no_patch\<lparr>p_errorMessage := Some m, p_retryCount := Some n\<rparr>))
     = [SetStatus Failed, SetUpdatedAtNow, SetErrorMessage m, SetRetryCount n]"
  by (simp add: updates_def no_patch_def)

text \<open>
  The \<^verbatim>\<open>catch\<close> block always throws; it records and broadcasts the failure when the id and
  the message are accepted by the database.
\<close>

lemma processOrder_catch_eq:
  "processOrder_catch maxRetries job err s =
     (case fst (updateStatus (job_orderId job) Failed
                  (Some (no_patch\<lparr>p_errorMessage := Some (message err),
                                  p_retryCount := Some (attemptsMade job)\<rparr>)) s) of
        Inl err' \<Rightarrow> (Inl err', snd (updateStatus (job_orderId job) Failed
                  (Some (no_patch\<lparr>p_errorMessage := Some (message err),
                                  p_retryCount := Some (attemptsMade job)\<rparr>)) s))
      | Inr u \<Rightarrow> (Inl err,
          broadcastStatus \<lparr>su_orderId = job_orderId job, su_status = Failed,
              su_timestamp = clock s,
              su_data = Some (FailedData (message err) (attemptsMade job)
                                 (attemptsMade job < maxRetries))\<rparr>
            (snd (updateStatus (job_orderId job) Failed
                  (Some (no_patch\<lparr>p_errorMessage := Some (message err),
                                  p_retryCount := Some (attemptsMade job)\<rparr>)) s))))"
  by (simp add: processOrder_catch_def Let_def case_updateStatus updateStatus_always
        cong: sum.case_cong)

lemma processOrder_catch_thrown:
  "\<exists>e. fst (processOrder_catch maxRetries job err s) = Inl e"
  by (simp add: processOrder_catch_eq split: sum.split)

lemma processOrder_catch_not_returned [simp]:
  "(fst (processOrder_catch maxRetries job err s) = Inr u) = False"
  using processOrder_catch_thrown[of maxRetries job err s] by auto

lemma processOrder_catch_recorded:
  assumes "uuidRegex_test (job_orderId job)" "text_fits (message err)"
  shows "processOrder_catch maxRetries job err s =
     (Inl err,
          broadcastStatus \<lparr>su_orderId = job_orderId job, su_status = Failed,
              su_timestamp = clock s,
              su_data = Some (FailedData (message err) (attemptsMade job)
                                 (attemptsMade job < maxRetries))\<rparr>
            (snd (updateStatus (job_orderId job) Failed
                  (Some (no_patch\<lparr>p_errorMessage := Some (message err),
                                  p_retryCount := Some (attemptsMade job)\<rparr>)) s)))"
  using assms by (simp add: processOrder_catch_eq updateStatus_error rejected_failed)

text \<open>
  The run of \<^verbatim>\<open>processOrder\<close> on a missing and on a found order; the latter returns
  exactly when the database accepts the id and the result of the swap.
\<close>

lemma processOrder_missing:
  assumes "getById (job_orderId job) s = (None, s0)"
  shows "processOrder maxRetries d job s =
           processOrder_catch maxRetries job
             (Error (''Order '' @ job_orderId job @ '' not found'')) s0"
  using assms by (simp add: processOrder_def Let_def)

lemma processOrder_found_eq:
  assumes "getById (job_orderId job) s = (Some order, s0)"
  shows "processOrder maxRetries d job s =
    (let i = job_orderId job;
         U1 = updateStatus i Routing None s0;
         s2 = broadcastStatus
                \<lparr>su_orderId = i, su_status = Routing, su_timestamp = clock s0,
                 su_data = Some (MessageData ''Comparing DEX quotes...'')\<rparr> (snd U1);
         q = getBestQuote (tokenIn order) (tokenOut order) (amount order)
               (raydiumDraw d) (meteoraDraw d) (clock s0);
         U3 = updateStatus i Building
                (Some (no_patch\<lparr>p_selectedDex := Some (dex (bestQuote q)),
                                p_raydiumQuote := Some (bq_raydiumQuote q),
                                p_meteoraQuote := Some (bq_meteoraQuote q)\<rparr>)) s2;
         s4 = broadcastStatus
                \<lparr>su_orderId = i, su_status = Building, su_timestamp = clock s0,
                 su_data = Some (BuildingData (dex (bestQuote q))
                                   (estimatedOutput (bestQuote q)) (priceImprovement q))\<rparr>
                (snd U3);
         U5 = updateStatus i Submitted None s4;
         s6 = broadcastStatus
                \<lparr>su_orderId = i, su_status = Submitted, su_timestamp = clock s0,
                 su_data = Some (MessageData ''Transaction submitted to blockchain...'')\<rparr>
                (snd U5);
         sw = executeSwap
                \<lparr>od_orderId = i, od_tokenIn = tokenIn order, od_tokenOut = tokenOut order,
                 od_amount = amount order, od_slippage = slippage order\<rparr>
                (dex (bestQuote q)) (slippageDraw d) (hashDraws d) (clock s0);
         U7 = updateStatus i Confirmed
                (Some (no_patch\<lparr>p_executedPrice := Some (swap_executedPrice sw),
                                p_amountOut := Some (swap_amountOut sw),
                                p_txHash := Some (swap_txHash sw)\<rparr>)) s6;
         s8 = broadcastStatus
                \<lparr>su_orderId = i, su_status = Confirmed, su_timestamp = clock s0,
                 su_data = Some (ConfirmedData (swap_txHash sw) (swap_executedPrice sw)
                                   (swap_amountOut sw) (swap_dex sw))\<rparr> (snd U7)
     in case fst U1 of Inl e \<Rightarrow> processOrder_catch maxRetries job e (snd U1) | Inr u \<Rightarrow>
        case fst U3 of Inl e \<Rightarrow> processOrder_catch maxRetries job e (snd U3) | Inr u \<Rightarrow>
        case fst U5 of Inl e \<Rightarrow> processOrder_catch maxRetries job e (snd U5) | Inr u \<Rightarrow>
        case fst U7 of Inl e \<Rightarrow> processOrder_catch maxRetries job e (snd U7) | Inr u \<Rightarrow>
        (Inr (), s8))"
  using assms
  by (simp add: processOrder_def Let_def case_updateStatus updateStatus_always
        broadcastStatus_fields cong: sum.case_cong)

lemma processOrder_returns_iff:
  assumes "getById (job_orderId job) s = (Some order, s0)"
  shows "(fst (processOrder maxRetries d job s) = Inr ()) =
    (let q = getBestQuote (tokenIn order) (tokenOut order) (amount order)
               (raydiumDraw d) (meteoraDraw d) (clock s0);
         sw = executeSwap
                \<lparr>od_orderId = job_orderId job, od_tokenIn = tokenIn order,
                 od_tokenOut = tokenOut order,
                 od_amount = amount order, od_slippage = slippage order\<rparr>
                (dex (bestQuote q)) (slippageDraw d) (hashDraws d) (clock s0)
     in uuidRegex_test (job_orderId job)
        \<and> decimal_fits 20 8 (swap_executedPrice sw) \<and> decimal_fits 20 8 (swap_amountOut sw)
        \<and> text_fits (swap_txHash sw) \<and> varchar_fits 100 (swap_txHash sw))"
  unfolding processOrder_found_eq[OF assms] Let_def
  by (simp add: updateStatus_error rejected_confirmed)

lemma processOrder_returned_eq:
  assumes g: "getById (job_orderId job) s = (Some order, s0)"
      and r: "fst (processOrder maxRetries d job s) = Inr ()"
  shows "processOrder maxRetries d job s =
    (let i = job_orderId job;
         q = getBestQuote (tokenIn order) (tokenOut order) (amount order)
               (raydiumDraw d) (meteoraDraw d) (clock s0);
         sw = executeSwap
                \<lparr>od_orderId = i, od_tokenIn = tokenIn order, od_tokenOut = tokenOut order,
                 od_amount = amount order, od_slippage = slippage order\<rparr>
                (dex (bestQuote q)) (slippageDraw d) (hashDraws d) (clock s0)
     in (Inr (),
         broadcastStatus
           \<lparr>su_orderId = i, su_status = Confirmed, su_timestamp = clock s0,
            su_data = Some (ConfirmedData (swap_txHash sw) (swap_executedPrice sw)
                              (swap_amountOut sw) (swap_dex sw))\<rparr>
         (snd (updateStatus i Confirmed
                (Some (no_patch\<lparr>p_executedPrice := Some (swap_executedPrice sw),
                                p_amountOut := Some (swap_amountOut sw),
                                p_txHash := Some (swap_txHash sw)\<rparr>))
         (broadcastStatus
           \<lparr>su_orderId = i, su_status = Submitted, su_timestamp = clock s0,
            su_data = Some (MessageData ''Transaction submitted to blockchain...'')\<rparr>
         (snd (updateStatus i Submitted None
         (broadcastStatus
           \<lparr>su_orderId = i, su_status = Building, su_timestamp = clock s0,
            su_data = Some (BuildingData (dex (bestQuote q))
                              (estimatedOutput (bestQuote q)) (priceImprovement q))\<rparr>
         (snd (updateStatus i Building
                (Some (no_patch\<lparr>p_selectedDex := Some (dex (bestQuote q)),
                                p_raydiumQuote := Some (bq_raydiumQuote q),
                                p_meteoraQuote := Some (bq_meteoraQuote q)\<rparr>))
         (broadcastStatus
           \<lparr>su_orderId = i, su_status = Routing, su_timestamp = clock s0,
            su_data = Some (MessageData ''Comparing DEX quotes...'')\<rparr>
         (snd (updateStatus i Routing None s0)))))))))))))"
  using r[unfolded processOrder_returns_iff[OF g]]
  unfolding processOrder_found_eq[OF g] Let_def
  by (simp add: updateStatus_error rejected_confirmed)

lemma processOrder_returned:
  assumes g: "getById (job_orderId job) s = (Some order, s0)"
      and r: "fst (processOrder maxRetries d job s) = Inr ()"
  defines "i \<equiv> job_orderId job"
  defines "q \<equiv> getBestQuote (tokenIn order) (tokenOut order) (amount order)
               (raydiumDraw d) (meteoraDraw d) (clock s0)"
  defines "sw \<equiv> executeSwap
                \<lparr>od_orderId = job_orderId job, od_tokenIn = tokenIn order,
                 od_tokenOut = tokenOut order,
                 od_amount = amount order, od_slippage = slippage order\<rparr>
                (dex (bestQuote q)) (slippageDraw d) (hashDraws d) (clock s0)"
  defines "sent \<equiv>
     [\<lparr>su_orderId = i, su_status = Routing, su_timestamp = clock s0,
       su_data = Some (MessageData ''Comparing DEX quotes...'')\<rparr>,
      \<lparr>su_orderId = i, su_status = Building, su_timestamp = clock s0,
       su_data = Some (BuildingData (dex (bestQuote q))
                         (estimatedOutput (bestQuote q)) (priceImprovement q))\<rparr>,
      \<lparr>su_orderId = i, su_status = Submitted, su_timestamp = clock s0,
       su_data = Some (MessageData ''Transaction submitted to blockchain...'')\<rparr>,
      \<lparr>su_orderId = i, su_status = Confirmed, su_timestamp = clock s0,
       su_data = Some (ConfirmedData (swap_txHash sw) (swap_executedPrice sw)
                         (swap_amountOut sw) (swap_dex sw))\<rparr>]"
  shows "broadcasts (snd (processOrder maxRetries d job s)) = broadcasts s0 @ sent"
    and "written (snd (processOrder maxRetries d job s)) =
           written s0 @ (if db s0 i = None then []
                         else [(i, Routing), (i, Building), (i, Submitted), (i, Confirmed)])"
    and "map_option status (db (snd (processOrder maxRetries d job s)) i)
           = map_option (\<lambda>row. Confirmed) (db s0 i)"
    and "queue (snd (processOrder maxRetries d job s)) = queue s0"
    and "cache (snd (processOrder maxRetries d job s)) (cacheKey i) = None"
    and "clock (snd (processOrder maxRetries d job s)) = clock s0"
    and "connections (snd (processOrder maxRetries d job s)) i
           = map_option (map (\<lambda>ws. fold deliver sent ws)) (connections s0 i)"
proof -
  have ok: "uuidRegex_test (job_orderId job)"
    "decimal_fits 20 8 (swap_executedPrice sw)" "decimal_fits 20 8 (swap_amountOut sw)"
    "text_fits (swap_txHash sw)" "varchar_fits 100 (swap_txHash sw)"
    using r[unfolded processOrder_returns_iff[OF g]] by (simp_all add: Let_def sw_def q_def)
  note e = processOrder_returned_eq[OF g r, unfolded Let_def, folded q_def, folded sw_def,
      folded i_def]
  show "broadcasts (snd (processOrder maxRetries d job s)) = broadcasts s0 @ sent"
    unfolding e by (simp add: broadcastStatus_fields updateStatus_always sent_def)
  show "written (snd (processOrder maxRetries d job s)) =
           written s0 @ (if db s0 i = None then []
                         else [(i, Routing), (i, Building), (i, Submitted), (i, Confirmed)])"
    unfolding e using ok
    by (simp add: broadcastStatus_fields updateStatus_written updateStatus_db_None
          rejected_confirmed i_def)
  show "map_option status (db (snd (processOrder maxRetries d job s)) i)
           = map_option (\<lambda>row. Confirmed) (db s0 i)"
    unfolding e using ok
    by (simp add: broadcastStatus_fields updateStatus_db_status updateStatus_db_kept
          rejected_confirmed i_def)
  show "queue (snd (processOrder maxRetries d job s)) = queue s0"
    unfolding e by (simp add: broadcastStatus_fields updateStatus_always)
  show "cache (snd (processOrder maxRetries d job s)) (cacheKey i) = None"
    unfolding e using ok
    by (simp add: broadcastStatus_fields updateStatus_cache rejected_confirmed i_def)
  show "clock (snd (processOrder maxRetries d job s)) = clock s0"
    unfolding e by (simp add: broadcastStatus_fields updateStatus_always)
  show "connections (snd (processOrder maxRetries d job s)) i
           = map_option (map (\<lambda>ws. fold deliver sent ws)) (connections s0 i)"
    unfolding e
    by (simp add: broadcastStatus_fields updateStatus_always sent_def split: option.split)
qed

lemma processOrder_refused_eq:
  assumes g: "getById (job_orderId job) s = (Some order, s0)"
      and shape: "uuidRegex_test (job_orderId job)"
      and fine: "decimal_fits 20 8 (swap_executedPrice (executeSwap
                \<lparr>od_orderId = job_orderId job, od_tokenIn = tokenIn order,
                 od_tokenOut = tokenOut order,
                 od_amount = amount order, od_slippage = slippage order\<rparr>
                (dex (bestQuote (getBestQuote (tokenIn order) (tokenOut order) (amount order)
               (raydiumDraw d) (meteoraDraw d) (clock s0))))
                (slippageDraw d) (hashDraws d) (clock s0)))"
      and big: "\<not> decimal_fits 20 8 (swap_amountOut (executeSwap
                \<lparr>od_orderId = job_orderId job, od_tokenIn = tokenIn order,
                 od_tokenOut = tokenOut order,
                 od_amount = amount order, od_slippage = slippage order\<rparr>
                (dex (bestQuote (getBestQuote (tokenIn order) (tokenOut order) (amount order)
               (raydiumDraw d) (meteoraDraw d) (clock s0))))
                (slippageDraw d) (hashDraws d) (clock s0)))"
  shows "processOrder maxRetries d job s =
    (let i = job_orderId job;
         q = getBestQuote (tokenIn order) (tokenOut order) (amount order)
               (raydiumDraw d) (meteoraDraw d) (clock s0);
         sw = executeSwap
                \<lparr>od_orderId = i, od_tokenIn = tokenIn order, od_tokenOut = tokenOut order,
                 od_amount = amount order, od_slippage = slippage order\<rparr>
                (dex (bestQuote q)) (slippageDraw d) (hashDraws d) (clock s0)
     in (Inl (Error ''numeric field overflow''),
         broadcastStatus
           \<lparr>su_orderId = i, su_status = Failed, su_timestamp = clock s0,
            su_data = Some (FailedData ''numeric field overflow'' (attemptsMade job)
                              (attemptsMade job < maxRetries))\<rparr>
         (snd (updateStatus i Failed
                (Some (no_patch\<lparr>p_errorMessage := Some ''numeric field overflow'',
                                p_retryCount := Some (attemptsMade job)\<rparr>))
         (snd (updateStatus i Confirmed
                (Some (no_patch\<lparr>p_executedPrice := Some (swap_executedPrice sw),
                                p_amountOut := Some (swap_amountOut sw),
                                p_txHash := Some (swap_txHash sw)\<rparr>))
         (broadcastStatus
           \<lparr>su_orderId = i, su_status = Submitted, su_timestamp = clock s0,
            su_data = Some (MessageData ''Transaction submitted to blockchain...'')\<rparr>
         (snd (updateStatus i Submitted None
         (broadcastStatus
           \<lparr>su_orderId = i, su_status = Building, su_timestamp = clock s0,
            su_data = Some (BuildingData (dex (bestQuote q))
                              (estimatedOutput (bestQuote q)) (priceImprovement q))\<rparr>
         (snd (updateStatus i Building
                (Some (no_patch\<lparr>p_selectedDex := Some (dex (bestQuote q)),
                                p_raydiumQuote := Some (bq_raydiumQuote q),
                                p_meteoraQuote := Some (bq_meteoraQuote q)\<rparr>))
         (broadcastStatus
           \<lparr>su_orderId = i, su_status = Routing, su_timestamp = clock s0,
            su_data = Some (MessageData ''Comparing DEX quotes...'')\<rparr>
         (snd (updateStatus i Routing None s0)))))))))))))))"
proof -
  have t: "text_fits (message (Error ''numeric field overflow''))"
    by (simp add: text_fits_def)
  show ?thesis
    unfolding processOrder_found_eq[OF g] Let_def
    using shape fine big
    by (simp add: updateStatus_error rejected_confirmed processOrder_catch_recorded[OF shape t]
          updateStatus_always broadcastStatus_fields)
qed

text \<open>
  C1, as the claim states it, fails: the missing order is an error thrown inside the
  \<^verbatim>\<open>try\<close> block, so the \<^verbatim>\<open>catch\<close> block runs as for any failure. For the nil UUID
  in the fresh deployment, with one attempt made of three, the failed event is handed to the
  broadcaster with \<^verbatim>\<open>willRetry\<close> true, and the error is thrown again to the queue
  (the source: "Re-throw for BullMQ retry logic").
\<close>

theorem processOrder_missing_order_is_broadcast_and_rethrown:
  "fst (processOrder 3 zero_draws \<lparr>job_orderId = nil_uuid, attemptsMade = 1\<rparr> initial)
     = Inl (Error (''Order '' @ nil_uuid @ '' not found''))
   \<and> broadcasts (snd (processOrder 3 zero_draws \<lparr>job_orderId = nil_uuid, attemptsMade = 1\<rparr>
        initial))
     = [\<lparr>su_orderId = nil_uuid, su_status = Failed, su_timestamp = 0,
         su_data = Some (FailedData (''Order '' @ nil_uuid @ '' not found'') 1 True)\<rparr>]"
proof -
  have g: "getById (job_orderId \<lparr>job_orderId = nil_uuid, attemptsMade = 1\<rparr>) initial
             = (None, initial\<lparr>statements := [SELECT nil_uuid]\<rparr>)"
    using nil_uuid_shape by (simp add: getById_def Let_def initial_def)
  have t: "text_fits (message (Error (''Order '' @ nil_uuid @ '' not found'')))"
    using not_found_text[OF nil_uuid_shape] by simp
  show ?thesis
    unfolding processOrder_missing[OF g]
    using processOrder_catch_recorded[where job = "\<lparr>job_orderId = nil_uuid, attemptsMade = 1\<rparr>"
        and err = "Error (''Order '' @ nil_uuid @ '' not found'')" and maxRetries = 3
        and s = "initial\<lparr>statements := [SELECT nil_uuid]\<rparr>"] t nil_uuid_shape
    by (simp add: broadcastStatus_fields updateStatus_always initial_def)
qed

text \<open>
  C1, amended: for a job whose UUID-shaped order id has neither a cache entry nor a row,
  \<^verbatim>\<open>processOrder\<close> writes no row, leaves the cache and the queue as they were and sets
  none of the statuses routing, building, submitted, confirmed; it does send one select and
  the update to failed (which matches no row), hands to the broadcaster one failed event
  with the message "Order <id> not found", the retry count \<^verbatim>\<open>attemptsMade\<close> and
  \<^verbatim>\<open>willRetry = attemptsMade < maxRetries\<close>, and throws the error again, which leaves the
  retry of the job to the policy of the queue.
\<close>

theorem processOrder_order_missing:
  assumes miss: "cache s (cacheKey (job_orderId job)) = None"
      and norow: "db s (job_orderId job) = None"
      and shape: "uuidRegex_test (job_orderId job)"
  shows
    "let msg = ''Order '' @ job_orderId job @ '' not found'';
         res = processOrder maxRetries d job s
     in fst res = Inl (Error msg)
        \<and> db (snd res) = db s \<and> cache (snd res) = cache s \<and> queue (snd res) = queue s
        \<and> statements (snd res)
            = statements s @ [SELECT (job_orderId job),
                              UPDATE (job_orderId job)
                                [SetStatus Failed, SetUpdatedAtNow, SetErrorMessage msg,
                                 SetRetryCount (attemptsMade job)]]
        \<and> broadcasts (snd res)
            = broadcasts s @ [\<lparr>su_orderId = job_orderId job, su_status = Failed,
                                su_timestamp = clock s,
                                su_data = Some (FailedData msg (attemptsMade job)
                                                  (attemptsMade job < maxRetries))\<rparr>]"
proof -
  have g: "getById (job_orderId job) s
             = (None, s\<lparr>statements := statements s @ [SELECT (job_orderId job)]\<rparr>)"
    using miss norow shape by (simp add: getById_def Let_def)
  have t: "text_fits (message (Error (''Order '' @ job_orderId job @ '' not found'')))"
    using not_found_text[OF shape] by simp
  have c: "(cache s)(cacheKey (job_orderId job) := None) = cache s"
    using miss by (rule fun_upd_idem)
  show ?thesis
    unfolding Let_def processOrder_missing[OF g] processOrder_catch_recorded[OF shape t]
    using norow
    by (simp add: broadcastStatus_fields updateStatus_always updateStatus_db updateStatus_cache
          updates_failed c)
qed

theorem processOrder_order_missing_witness:
  "cache initial (cacheKey nil_uuid) = None \<and> db initial nil_uuid = None
   \<and> uuidRegex_test nil_uuid
   \<and> db (snd (processOrder 3 zero_draws \<lparr>job_orderId = nil_uuid, attemptsMade = 3\<rparr> initial))
       = Map.empty
   \<and> statements (snd (processOrder 3 zero_draws \<lparr>job_orderId = nil_uuid, attemptsMade = 3\<rparr>
         initial))
       = [SELECT nil_uuid,
          UPDATE nil_uuid [SetStatus Failed, SetUpdatedAtNow,
                           SetErrorMessage (''Order '' @ nil_uuid @ '' not found''),
                           SetRetryCount 3]]"
  using processOrder_order_missing[of initial "\<lparr>job_orderId = nil_uuid, attemptsMade = 3\<rparr>"
          3 zero_draws] nil_uuid_shape
  by (simp add: initial_def Let_def)

text \<open>
  The job of the sample submission, one and a half SOL for USDC with draws that are all 0,
  returns.
\<close>

lemma sample_run:
  "fst (processOrder 3 zero_draws \<lparr>job_orderId = nil_uuid, attemptsMade = k\<rparr>
          (snd (executeOrder (submission ''SOL'' ''USDC'' (3 / 2) (1 / 100) up)
                  nil_uuid initial))) = Inr ()"
proof -
  have c: "cache (snd (executeOrder (submission ''SOL'' ''USDC'' (3 / 2) (1 / 100) up)
                  nil_uuid initial)) (cacheKey nil_uuid)
             = Some (insertedRow nil_uuid ''SOL'' ''USDC'' (3 / 2) (1 / 100) 0)"
    using nil_uuid_shape
    by (subst executeOrder_created(3)[where ti = "''SOL''" and to = "''USDC''" and a = "3 / 2"
          and x = "1 / 100", OF submission_fields(1)])
      (simp_all add: sample_fits initial_fields)
  have g: "getById (job_orderId \<lparr>job_orderId = nil_uuid, attemptsMade = k\<rparr>)
             (snd (executeOrder (submission ''SOL'' ''USDC'' (3 / 2) (1 / 100) up)
                  nil_uuid initial))
           = (Some (insertedRow nil_uuid ''SOL'' ''USDC'' (3 / 2) (1 / 100) 0),
              snd (executeOrder (submission ''SOL'' ''USDC'' (3 / 2) (1 / 100) up)
                  nil_uuid initial))"
    by (simp add: getById_def c)
  show ?thesis
    unfolding processOrder_returns_iff[OF g]
    using nil_uuid_shape
    by (simp add: Let_def insertedRow_def getBestQuote_def getRaydiumQuote_def
          getMeteorQuote_def applyPriceVariance_def getBasePrice_def basePrices_def
          executeSwap_def zero_draws_def hash_zero_fits decimal_fits_def round_to_def)
qed

text \<open>
  C6, as the claim states it, fails on what is broadcast: the worker broadcasts routing,
  building, submitted and confirmed, and pending is broadcast by the submission route only
  when the request upgrades to WebSocket. For a plain submission whose job completes, the
  updates handed to the broadcaster are four.
\<close>

theorem plain_submission_broadcasts_four:
  "fst (processOrder 3 zero_draws \<lparr>job_orderId = nil_uuid, attemptsMade = 0\<rparr>
          (snd (executeOrder (submission ''SOL'' ''USDC'' (3 / 2) (1 / 100) None)
                  nil_uuid initial))) = Inr ()
   \<and> map su_status (broadcasts (snd (processOrder 3 zero_draws
          \<lparr>job_orderId = nil_uuid, attemptsMade = 0\<rparr>
          (snd (executeOrder (submission ''SOL'' ''USDC'' (3 / 2) (1 / 100) None)
                  nil_uuid initial)))))
     = [Routing, Building, Submitted, Confirmed]"
proof -
  have c: "cache (snd (executeOrder (submission ''SOL'' ''USDC'' (3 / 2) (1 / 100) None)
                  nil_uuid initial)) (cacheKey nil_uuid)
             = Some (insertedRow nil_uuid ''SOL'' ''USDC'' (3 / 2) (1 / 100) 0)"
    using nil_uuid_shape
    by (subst executeOrder_created(3)[where ti = "''SOL''" and to = "''USDC''" and a = "3 / 2"
          and x = "1 / 100", OF submission_fields(1)])
      (simp_all add: sample_fits initial_fields)
  have b: "broadcasts (snd (executeOrder (submission ''SOL'' ''USDC'' (3 / 2) (1 / 100) None)
                  nil_uuid initial)) = []"
    using nil_uuid_shape
    by (subst executeOrder_created(8)[where ti = "''SOL''" and to = "''USDC''" and a = "3 / 2"
          and x = "1 / 100", OF submission_fields(1)])
      (simp_all add: sample_fits initial_fields submission_fields)
  have g: "getById (job_orderId \<lparr>job_orderId = nil_uuid, attemptsMade = 0\<rparr>)
             (snd (executeOrder (submission ''SOL'' ''USDC'' (3 / 2) (1 / 100) None)
                  nil_uuid initial))
           = (Some (insertedRow nil_uuid ''SOL'' ''USDC'' (3 / 2) (1 / 100) 0),
              snd (executeOrder (submission ''SOL'' ''USDC'' (3 / 2) (1 / 100) None)
                  nil_uuid initial))"
    by (simp add: getById_def c)
  show ?thesis
    using processOrder_returned(1)[OF g sample_run] sample_run[of 0 None] b by simp
qed

text \<open>
  C6, amended: for every order that a submission creates under a fresh id and whose
  processing run, started in the state that the submission leaves, returns without an
  error: the status values written to the row are exactly pending, routing, building,
  submitted, confirmed in that order, each step is a transition of the state machine, and
  the row ends confirmed. The updates handed to the broadcaster for the order are routing,
  building, submitted, confirmed in that order, preceded by pending exactly when the
  submission upgraded to WebSocket; in that case an open socket registered by the
  submission, alone for its order, receives the five in order.
\<close>

theorem order_lifecycle_statuses:
  assumes fresh: "db s newId = None"
      and created: "db (snd (executeOrder req newId s)) newId \<noteq> None"
      and completes: "fst (processOrder maxRetries d \<lparr>job_orderId = newId, attemptsMade = k\<rparr>
                             (snd (executeOrder req newId s))) = Inr ()"
  shows
    "let s1 = snd (executeOrder req newId s);
         job = \<lparr>job_orderId = newId, attemptsMade = k\<rparr>;
         s2 = snd (processOrder maxRetries d job s1);
         writes = statusWrites newId (drop (length (written s)) (written s2));
         sent = drop (length (broadcasts s)) (broadcasts s2)
     in writes = [Pending, Routing, Building, Submitted, Confirmed]
        \<and> successively spec_transition writes
        \<and> map_option status (db s2 newId) = Some Confirmed
        \<and> map su_status sent
            = (if upgrade req = Some ''websocket''
               then [Pending, Routing, Building, Submitted, Confirmed]
               else [Routing, Building, Submitted, Confirmed])
        \<and> map su_orderId sent = replicate (length sent) newId
        \<and> (upgrade req = Some ''websocket'' \<and> connections s newId = None
               \<and> readyState (socket req) = OPEN \<longrightarrow>
             (\<exists>ws. connections s2 newId = Some [ws]
                \<and> map su_status (received ws)
                    = map su_status (received (socket req))
                      @ [Pending, Routing, Building, Submitted, Confirmed]))"
proof -
  define s1 where "s1 = snd (executeOrder req newId s)"
  define job where "job = \<lparr>job_orderId = newId, attemptsMade = k\<rparr>"
  define s2 where "s2 = snd (processOrder maxRetries d job s1)"
  have "db (snd (executeOrder req newId s)) \<noteq> db s
        \<or> queue (snd (executeOrder req newId s)) \<noteq> queue s"
    using fresh created by auto
  then obtain b ti to a x where b: "body req = Props b"
    and f: "b_tokenIn b = JString ti" "b_tokenOut b = JString to" "b_amount b = JNumber a"
           "b_slippage b = JNumber x"
    and v: "ti \<noteq> []" "to \<noteq> []" "ti \<noteq> to" "0 < a" "0 \<le> x" "x \<le> 1"
    and ok: "uuidRegex_test newId" "db s newId = None" "text_fits ti" "text_fits to"
            "varchar_fits 50 ti" "varchar_fits 50 to" "decimal_fits 20 8 a"
    using executeOrder_changes[of req newId s] by blast
  define row where "row = insertedRow newId (take 50 ti) (take 50 to) (round_to 8 a)
                               (round_to 4 x) (clock s)"
  note c = executeOrder_created[OF b f v ok, folded row_def s1_def]
  have db1: "db s1 newId = Some row" by (simp add: c(2))
  have g: "getById (job_orderId job) s1 = (Some row, s1)"
    by (simp add: getById_def job_def c(3))
  have r: "fst (processOrder maxRetries d job s1) = Inr ()"
    using completes by (simp add: job_def s1_def)
  note p = processOrder_returned[OF g r, folded s2_def]
  have i: "job_orderId job = newId" by (simp add: job_def)
  have writes: "statusWrites newId (drop (length (written s)) (written s2))
                  = [Pending, Routing, Building, Submitted, Confirmed]"
    by (simp add: p(2) c(4) i db1 statusWrites_def)
  have fin: "map_option status (db s2 newId) = Some Confirmed"
    using p(3) by (simp add: i db1)
  have sent: "map su_status (drop (length (broadcasts s)) (broadcasts s2))
            = (if upgrade req = Some ''websocket''
               then [Pending, Routing, Building, Submitted, Confirmed]
               else [Routing, Building, Submitted, Confirmed])"
    by (simp add: p(1) c(8))
  have ids: "map su_orderId (drop (length (broadcasts s)) (broadcasts s2))
            = replicate (length (drop (length (broadcasts s)) (broadcasts s2))) newId"
    by (simp add: p(1) c(8) i)
  have delivered:
    "\<exists>ws. connections s2 newId = Some [ws]
        \<and> map su_status (received ws)
            = map su_status (received (socket req))
              @ [Pending, Routing, Building, Submitted, Confirmed]"
    if up: "upgrade req = Some ''websocket''" and nocon: "connections s newId = None"
      and op: "readyState (socket req) = OPEN"
  proof -
    have "clock s1 = clock s" by (rule c(7))
    then show ?thesis
      using p(7) executeOrder_registers[OF b f v ok up nocon, folded s1_def] op
      by (simp add: i deliver_def)
  qed
  show ?thesis
    unfolding Let_def s1_def[symmetric] job_def[symmetric] s2_def[symmetric] writes
    using fin sent ids delivered
    by (simp add: spec_transition_def)
qed

theorem order_lifecycle_statuses_witness:
  "db initial nil_uuid = None
   \<and> db (snd (executeOrder (submission ''SOL'' ''USDC'' (3 / 2) (1 / 100) (Some ''websocket''))
                  nil_uuid initial)) nil_uuid \<noteq> None
   \<and> fst (processOrder 3 zero_draws \<lparr>job_orderId = nil_uuid, attemptsMade = 0\<rparr>
          (snd (executeOrder (submission ''SOL'' ''USDC'' (3 / 2) (1 / 100) (Some ''websocket''))
                  nil_uuid initial))) = Inr ()
   \<and> statusWrites nil_uuid (written (snd (processOrder 3 zero_draws
          \<lparr>job_orderId = nil_uuid, attemptsMade = 0\<rparr>
          (snd (executeOrder (submission ''SOL'' ''USDC'' (3 / 2) (1 / 100) (Some ''websocket''))
                  nil_uuid initial)))))
       = [Pending, Routing, Building, Submitted, Confirmed]
   \<and> map su_status (broadcasts (snd (processOrder 3 zero_draws
          \<lparr>job_orderId = nil_uuid, attemptsMade = 0\<rparr>
          (snd (executeOrder (submission ''SOL'' ''USDC'' (3 / 2) (1 / 100) (Some ''websocket''))
                  nil_uuid initial)))))
       = [Pending, Routing, Building, Submitted, Confirmed]
   \<and> map_option (map (\<lambda>ws. map su_status (received ws)))
        (connections (snd (processOrder 3 zero_draws
          \<lparr>job_orderId = nil_uuid, attemptsMade = 0\<rparr>
          (snd (executeOrder (submission ''SOL'' ''USDC'' (3 / 2) (1 / 100) (Some ''websocket''))
                  nil_uuid initial)))) nil_uuid)
       = Some [[Pending, Routing, Building, Submitted, Confirmed]]"
proof -
  have cr: "db (snd (executeOrder (submission ''SOL'' ''USDC'' (3 / 2) (1 / 100)
                  (Some ''websocket'')) nil_uuid initial)) nil_uuid \<noteq> None"
    using nil_uuid_shape
    by (subst executeOrder_created(2)[where ti = "''SOL''" and to = "''USDC''" and a = "3 / 2"
          and x = "1 / 100", OF submission_fields(1)])
      (simp_all add: sample_fits initial_fields)
  show ?thesis
    using order_lifecycle_statuses[where
          req = "submission ''SOL'' ''USDC'' (3 / 2) (1 / 100) (Some ''websocket'')"
          and s = initial and newId = nil_uuid and maxRetries = 3 and d = zero_draws and k = 0,
          OF _ cr sample_run] cr sample_run[of 0 "Some ''websocket''"]
    by (auto simp add: Let_def initial_fields submission_fields)
qed

text \<open>
  The run need not return, and the sequence of five is that of an order whose first run
  does. Eleven billion SOL for USDC at the slippage one half is a valid submission. With the
  slippage draw 0 the amount out of the swap is 1096700000000, which
  \<^verbatim>\<open>DECIMAL(20, 8)\<close> refuses: the update to confirmed throws, the \<^verbatim>\<open>catch\<close> block writes
  failed and throws again. When the queue runs the job again and the slippage draw is one
  half, the amount out is 822525000000 and the run returns: the order completes after
  passing through failed, as the state machine of the specification allows.
\<close>

theorem retried_order_passes_through_failed:
  "let s1 = snd (executeOrder (submission ''SOL'' ''USDC'' 11000000000 (1 / 2) None)
                   nil_uuid initial);
       first = processOrder 3 zero_draws \<lparr>job_orderId = nil_uuid, attemptsMade = k1\<rparr> s1;
       second = processOrder 3 (zero_draws\<lparr>slippageDraw := 1 / 2\<rparr>)
                  \<lparr>job_orderId = nil_uuid, attemptsMade = k2\<rparr> (snd first)
   in fst first = Inl (Error ''numeric field overflow'')
      \<and> fst second = Inr ()
      \<and> statusWrites nil_uuid (written (snd second))
          = [Pending, Routing, Building, Submitted, Failed,
             Routing, Building, Submitted, Confirmed]
      \<and> successively spec_transition (statusWrites nil_uuid (written (snd second)))
      \<and> map su_status (broadcasts (snd second))
          = [Routing, Building, Submitted, Failed, Routing, Building, Submitted, Confirmed]
      \<and> map_option status (db (snd second) nil_uuid) = Some Confirmed"
proof -
  define s1 where "s1 = snd (executeOrder (submission ''SOL'' ''USDC'' 11000000000 (1 / 2) None)
                    nil_uuid initial)"
  define row where "row = insertedRow nil_uuid ''SOL'' ''USDC'' 11000000000 (1 / 2) 0"
  define job1 where "job1 = \<lparr>job_orderId = nil_uuid, attemptsMade = k1\<rparr>"
  define job2 where "job2 = \<lparr>job_orderId = nil_uuid, attemptsMade = k2\<rparr>"
  define first where "first = processOrder 3 zero_draws job1 s1"
  define second where
    "second = processOrder 3 (zero_draws\<lparr>slippageDraw := 1 / 2\<rparr>) job2 (snd first)"
  have j: "job_orderId job1 = nil_uuid" "job_orderId job2 = nil_uuid"
    "uuidRegex_test (job_orderId job1)" "uuidRegex_test (job_orderId job2)"
    using nil_uuid_shape by (simp_all add: job1_def job2_def)
  have ok: "db initial nil_uuid = None" "text_fits ''SOL''" "text_fits ''USDC''"
    "varchar_fits 50 ''SOL''" "varchar_fits 50 ''USDC''" "decimal_fits 20 8 11000000000"
    by (simp_all add: initial_fields sample_fits big_fits)
  note c = executeOrder_created[where
      req = "submission ''SOL'' ''USDC'' 11000000000 (1 / 2) None"
      and ti = "''SOL''" and to = "''USDC''" and a = "11000000000" and x = "1 / 2"
      and newId = nil_uuid and s = initial, OF submission_fields(1), simplified,
      OF nil_uuid_shape ok, folded s1_def]
  have db1: "db s1 nil_uuid = Some row"
    using c(2) by (simp add: sample_fits big_fits initial_fields row_def)
  have ca1: "cache s1 (cacheKey nil_uuid) = Some row"
    using c(3) by (simp add: sample_fits big_fits initial_fields row_def)
  have w1: "written s1 = [(nil_uuid, Pending)]"
    using c(4) by (simp add: initial_fields)
  have b1: "broadcasts s1 = []"
    using c(8) by (simp add: submission_fields initial_fields)
  have f: "tokenIn row = ''SOL''" "tokenOut row = ''USDC''" "amount row = 11000000000"
    "slippage row = 1 / 2"
    by (simp_all add: row_def insertedRow_def)
  have g1: "getById (job_orderId job1) s1 = (Some row, s1)"
    by (simp add: getById_def ca1 j)
  have q: "dex (bestQuote (getBestQuote ''SOL'' ''USDC'' 11000000000 0 0 n)) = Raydium" for n
    by (simp add: getBestQuote_def getRaydiumQuote_def getMeteorQuote_def
          applyPriceVariance_def getBasePrice_def basePrices_def Let_def)
  have sw1: "swap_executedPrice (executeSwap
                \<lparr>od_orderId = oid, od_tokenIn = ''SOL'', od_tokenOut = ''USDC'',
                 od_amount = 11000000000, od_slippage = 1 / 2\<rparr> Raydium 0 h n) = 100"
      "swap_amountOut (executeSwap
                \<lparr>od_orderId = oid, od_tokenIn = ''SOL'', od_tokenOut = ''USDC'',
                 od_amount = 11000000000, od_slippage = 1 / 2\<rparr> Raydium 0 h n)
         = 1096700000000" for oid h n
    by (simp_all add: executeSwap_def getBasePrice_def basePrices_def Let_def)
  have sw2: "swap_executedPrice (executeSwap
                \<lparr>od_orderId = oid, od_tokenIn = ''SOL'', od_tokenOut = ''USDC'',
                 od_amount = 11000000000, od_slippage = 1 / 2\<rparr> Raydium (1 / 2) h n) = 75"
      "swap_amountOut (executeSwap
                \<lparr>od_orderId = oid, od_tokenIn = ''SOL'', od_tokenOut = ''USDC'',
                 od_amount = 11000000000, od_slippage = 1 / 2\<rparr> Raydium (1 / 2) h n)
         = 822525000000"
      "swap_txHash (executeSwap
                \<lparr>od_orderId = oid, od_tokenIn = ''SOL'', od_tokenOut = ''USDC'',
                 od_amount = 11000000000, od_slippage = 1 / 2\<rparr> Raydium (1 / 2) h n)
         = generateMockTxHash h" for oid h n
    by (simp_all add: executeSwap_def getBasePrice_def basePrices_def Let_def)
  have fits: "decimal_fits 20 8 100" "\<not> decimal_fits 20 8 1096700000000"
    "decimal_fits 20 8 75" "decimal_fits 20 8 822525000000"
    by (simp_all add: decimal_fits_def round_to_def)
  have z: "raydiumDraw zero_draws = 0" "meteoraDraw zero_draws = 0" "slippageDraw zero_draws = 0"
    "hashDraws zero_draws = (\<lambda>i. 0)"
    "raydiumDraw (zero_draws\<lparr>slippageDraw := 1 / 2\<rparr>) = 0"
    "meteoraDraw (zero_draws\<lparr>slippageDraw := 1 / 2\<rparr>) = 0"
    "slippageDraw (zero_draws\<lparr>slippageDraw := 1 / 2\<rparr>) = 1 / 2"
    "hashDraws (zero_draws\<lparr>slippageDraw := 1 / 2\<rparr>) = (\<lambda>i. 0)"
    by (simp_all add: zero_draws_def)
  note e1 = processOrder_refused_eq[OF g1 j(3), of zero_draws 3, unfolded f z q sw1 Let_def j,
      OF fits(1,2), folded first_def]
  have r1: "fst first = Inl (Error ''numeric field overflow'')"
    by (simp add: e1)
  have t: "text_fits ''numeric field overflow''" by (simp add: text_fits_def)
  have wF: "written (snd first) = [(nil_uuid, Pending), (nil_uuid, Routing),
       (nil_uuid, Building), (nil_uuid, Submitted), (nil_uuid, Failed)]"
    using nil_uuid_shape fits t
    by (simp add: e1 broadcastStatus_fields updateStatus_written updateStatus_db_None
          rejected_confirmed rejected_failed sw1 w1 db1)
  have bF: "map su_status (broadcasts (snd first)) = [Routing, Building, Submitted, Failed]"
    by (simp add: e1 broadcastStatus_fields updateStatus_always b1)
  have cF: "cache (snd first) (cacheKey nil_uuid) = None"
    using nil_uuid_shape fits t
    by (simp add: e1 broadcastStatus_fields updateStatus_cache rejected_confirmed
          rejected_failed)
  have dF: "db (snd first) nil_uuid \<noteq> None"
    by (simp add: e1 broadcastStatus_fields updateStatus_db_None db1)
  then obtain rowF where rowF: "db (snd first) nil_uuid = Some rowF" by blast
  have "map_option tokenIn (db (snd first) nil_uuid) = Some ''SOL''"
    "map_option tokenOut (db (snd first) nil_uuid) = Some ''USDC''"
    "map_option amount (db (snd first) nil_uuid) = Some 11000000000"
    "map_option slippage (db (snd first) nil_uuid) = Some (1 / 2)"
    by (simp_all add: e1 broadcastStatus_fields updateStatus_db_frame db1 f)
  then have fF: "tokenIn rowF = ''SOL''" "tokenOut rowF = ''USDC''" "amount rowF = 11000000000"
    "slippage rowF = 1 / 2"
    by (simp_all add: rowF)
  have g2: "getById (job_orderId job2) (snd first)
              = (Some rowF, (snd first)\<lparr>statements := statements (snd first) @ [SELECT nil_uuid],
                               cache := (cache (snd first))(cacheKey nil_uuid \<mapsto> rowF)\<rparr>)"
    using nil_uuid_shape by (simp add: getById_def Let_def cF rowF j)
  have r2: "fst second = Inr ()"
    unfolding second_def processOrder_returns_iff[OF g2]
    using nil_uuid_shape
    by (simp add: Let_def fF z q sw2 fits hash_zero_fits j)
  note p = processOrder_returned[OF g2 r2[unfolded second_def], folded second_def]
  have w2: "written (snd second) = [(nil_uuid, Pending), (nil_uuid, Routing),
       (nil_uuid, Building), (nil_uuid, Submitted), (nil_uuid, Failed), (nil_uuid, Routing),
       (nil_uuid, Building), (nil_uuid, Submitted), (nil_uuid, Confirmed)]"
    by (simp add: p(2) wF rowF j)
  have b2: "map su_status (broadcasts (snd second))
          = [Routing, Building, Submitted, Failed, Routing, Building, Submitted, Confirmed]"
    using bF by (simp add: p(1))
  have d2: "map_option status (db (snd second) nil_uuid) = Some Confirmed"
    using p(3) by (simp add: rowF j)
  show ?thesis
    unfolding Let_def s1_def[symmetric] job1_def[symmetric] first_def[symmetric]
      job2_def[symmetric] second_def[symmetric]
    using r1 r2 w2 b2 d2 by (simp add: statusWrites_def spec_transition_def)
qed


section \<open>The price improvement of an amount that is stored as 0\<close>

text \<open>
  C3, at a submission that the route accepts: the amount 0.000000001 is above 0, so the
  request is valid and is answered with the status 201, but the column
  \<^verbatim>\<open>amount DECIMAL(20, 8)\<close> stores it, and \<^verbatim>\<open>create\<close> returns and caches it, as 0. The
  worker reads the order with the amount 0: the two estimated outputs are 0, a tie; the
  divisor \<^verbatim>\<open>worseOutput\<close> is 0 and the price improvement is \<^verbatim>\<open>0 / 0 * 100 = NaN\<close>, which
  is neither 0 nor at least 0. The run returns and the improvement is handed to the
  broadcaster with the building update. The last three statements hold for all draws.
\<close>

theorem rounded_amount_improvement_is_NaN:
  "fst (executeOrder (submission ''SOL'' ''USDC'' (1 / 1000000000) (1 / 100) None) nil_uuid initial)
     = Inr (Reply 201 (CreatedBody nil_uuid Pending
         ''Order created successfully. Connect via WebSocket for real-time updates.''
         (''/api/orders/execute?orderId='' @ nil_uuid)))
   \<and> map_option amount
        (db (snd (executeOrder (submission ''SOL'' ''USDC'' (1 / 1000000000) (1 / 100) None)
                    nil_uuid initial)) nil_uuid) = Some 0
   \<and> fst (processOrder 3 zero_draws \<lparr>job_orderId = nil_uuid, attemptsMade = 0\<rparr>
          (snd (executeOrder (submission ''SOL'' ''USDC'' (1 / 1000000000) (1 / 100) None)
                  nil_uuid initial))) = Inr ()
   \<and> map su_data (broadcasts (snd (processOrder 3 zero_draws
          \<lparr>job_orderId = nil_uuid, attemptsMade = 0\<rparr>
          (snd (executeOrder (submission ''SOL'' ''USDC'' (1 / 1000000000) (1 / 100) None)
                  nil_uuid initial)))))
       = [Some (MessageData ''Comparing DEX quotes...''),
          Some (BuildingData Meteora 0 NaN),
          Some (MessageData ''Transaction submitted to blockchain...''),
          Some (ConfirmedData (generateMockTxHash (\<lambda>i. 0)) 100 0 Meteora)]
   \<and> estimatedOutput (bq_raydiumQuote (getBestQuote ''SOL'' ''USDC'' 0 rr rm now))
       = estimatedOutput (bq_meteoraQuote (getBestQuote ''SOL'' ''USDC'' 0 rr rm now))
   \<and> priceImprovement (getBestQuote ''SOL'' ''USDC'' 0 rr rm now) = NaN
   \<and> \<not> js_ge (priceImprovement (getBestQuote ''SOL'' ''USDC'' 0 rr rm now)) 0"
proof -
  define s1 where "s1 = snd (executeOrder (submission ''SOL'' ''USDC'' (1 / 1000000000) (1 / 100) None)
                    nil_uuid initial)"
  note c = executeOrder_created[where req = "submission ''SOL'' ''USDC'' (1 / 1000000000) (1 / 100) None"
      and ti = "''SOL''" and to = "''USDC''" and a = "1 / 1000000000" and x = "1 / 100"
      and newId = nil_uuid and s = initial, OF submission_fields(1), simplified,
      OF nil_uuid_shape, folded s1_def]
  have ok: "db initial nil_uuid = None" "text_fits ''SOL''" "text_fits ''USDC''"
    "varchar_fits 50 ''SOL''" "varchar_fits 50 ''USDC''" "decimal_fits 20 8 (1 / 1000000000)"
    by (simp_all add: initial_fields sample_fits tiny_fits)
  note c' = c[OF ok]
  have reply: "fst (executeOrder (submission ''SOL'' ''USDC'' (1 / 1000000000) (1 / 100) None)
                 nil_uuid initial)
     = Inr (Reply 201 (CreatedBody nil_uuid Pending
         ''Order created successfully. Connect via WebSocket for real-time updates.''
         (''/api/orders/execute?orderId='' @ nil_uuid)))"
    using c'(1) by (simp add: submission_fields)
  have row: "db s1 nil_uuid = Some (insertedRow nil_uuid ''SOL'' ''USDC'' 0 (1 / 100) 0)"
    using c'(2) by (simp add: sample_fits tiny_fits initial_fields)
  have ca: "cache s1 (cacheKey nil_uuid)
              = Some (insertedRow nil_uuid ''SOL'' ''USDC'' 0 (1 / 100) 0)"
    using c'(3) by (simp add: sample_fits tiny_fits initial_fields)
  have b1: "broadcasts s1 = []"
    using c'(8) by (simp add: submission_fields initial_fields)
  have g: "getById (job_orderId \<lparr>job_orderId = nil_uuid, attemptsMade = 0\<rparr>) s1
           = (Some (insertedRow nil_uuid ''SOL'' ''USDC'' 0 (1 / 100) 0), s1)"
    by (simp add: getById_def ca)
  have r: "fst (processOrder 3 zero_draws \<lparr>job_orderId = nil_uuid, attemptsMade = 0\<rparr> s1)
             = Inr ()"
    unfolding processOrder_returns_iff[OF g]
    using nil_uuid_shape
    by (simp add: Let_def insertedRow_def getBestQuote_zero_amount
          getBasePrice_def basePrices_def
          executeSwap_def zero_draws_def hash_zero_fits decimal_fits_def round_to_def)
  have sent: "map su_data (broadcasts (snd (processOrder 3 zero_draws
          \<lparr>job_orderId = nil_uuid, attemptsMade = 0\<rparr> s1)))
       = [Some (MessageData ''Comparing DEX quotes...''),
          Some (BuildingData Meteora 0 NaN),
          Some (MessageData ''Transaction submitted to blockchain...''),
          Some (ConfirmedData (generateMockTxHash (\<lambda>i. 0)) 100 0 Meteora)]"
    unfolding processOrder_returned(1)[OF g r]
    by (simp add: b1 insertedRow_def getBestQuote_zero_amount getBasePrice_def basePrices_def
          executeSwap_def zero_draws_def Let_def)
  show ?thesis
    using reply row r sent
    by (simp add: s1_def[symmetric] getBestQuote_zero_amount js_ge_def insertedRow_def)
qed


end
